theory Spec2Isabelle
  imports Main
begin

section \<open>Python values the wrapper handles\<close>

text \<open>
  The wrapper \<^verbatim>\<open>spz_converter.py\<close> passes strings to the operating system and to one
  external command and reports what came back. Strings are \<^typ>\<open>string\<close>; the two
  non-ASCII marks the program prints are given by their UTF-8 bytes.

  Exceptions are values. Three classes are told apart by the handlers of
  \<^verbatim>\<open>convert\<close>: \<^verbatim>\<open>subprocess.TimeoutExpired\<close>, \<^verbatim>\<open>FileNotFoundError\<close>, and every other
  subclass of \<^verbatim>\<open>Exception\<close> (\<^verbatim>\<open>FileExistsError\<close>, \<^verbatim>\<open>PermissionError\<close>, ...). Each carries
  the text \<^verbatim>\<open>str(e)\<close> yields.
\<close>

datatype py_exception =
    TimeoutExpired string
  | FileNotFoundError string
  | OtherException string

fun exc_str :: "py_exception \<Rightarrow> string" where
  "exc_str (TimeoutExpired s) = s"
| "exc_str (FileNotFoundError s) = s"
| "exc_str (OtherException s) = s"

text \<open>\<^verbatim>\<open>subprocess.CompletedProcess\<close> under \<^verbatim>\<open>capture_output=True, text=True\<close>.\<close>

record completed_process =
  returncode :: int
  stdout :: string
  stderr :: string

text \<open>
  What a call of \<^verbatim>\<open>subprocess.run\<close> comes to. It returns a completed process, or it raises:
  \<^verbatim>\<open>TimeoutExpired\<close> when the child did not end in time, \<^verbatim>\<open>FileNotFoundError\<close> when the
  executable could not be started, \<^verbatim>\<open>UnicodeDecodeError\<close> when \<^verbatim>\<open>text=True\<close> cannot decode what
  the child wrote. In the last case the child has ended all the same, so a raised outcome
  carries the exit status of the child where there is one; the program never sees it.
\<close>

datatype run_outcome =
    Completed completed_process
  | Raised py_exception "int option"

fun exit_status :: "run_outcome \<Rightarrow> int option" where
  "exit_status (Completed r) = Some (returncode r)"
| "exit_status (Raised e status) = status"

text \<open>Truth value of an optional string: \<^verbatim>\<open>None\<close> and the empty string are false.\<close>

definition truthy :: "string option \<Rightarrow> bool" where
  "truthy v = (case v of None \<Rightarrow> False | Some s \<Rightarrow> s \<noteq> [])"

text \<open>\<^verbatim>\<open>str(n)\<close> for an integer: decimal digits, with a minus sign below zero.\<close>

definition digit_char :: "nat \<Rightarrow> char" where
  "digit_char d = char_of (48 + d)"

fun str_nat :: "nat \<Rightarrow> string" where
  "str_nat n = (if n < 10 then [digit_char n] else str_nat (n div 10) @ [digit_char (n mod 10)])"

declare str_nat.simps [simp del]

definition str_int :: "int \<Rightarrow> string" where
  "str_int i = (if i < 0 then CHR ''-'' # str_nat (nat (- i)) else str_nat (nat i))"

text \<open>\<^verbatim>\<open>sep.join(xs)\<close>.\<close>

fun str_join :: "string \<Rightarrow> string list \<Rightarrow> string" where
  "str_join sep [] = []"
| "str_join sep [x] = x"
| "str_join sep (x # y # ys) = x @ sep @ str_join sep (y # ys)"

definition cross_mark :: string where
  "cross_mark = [CHR 0xE2, CHR 0x9C, CHR 0x97]"

definition check_mark :: string where
  "check_mark = [CHR 0xE2, CHR 0x9C, CHR 0x93]"

definition quote_char :: char where
  "quote_char = CHR 0x27"

section \<open>The platform\<close>

text \<open>
  Everything the wrapper asks of the interpreter's library and the operating system is a
  field of a platform, so every theorem holds for every behaviour of those calls. The type
  \<open>'st\<close> is the state of the world outside the program (file system, installed tools);
  calls read it, and \<^verbatim>\<open>Path.mkdir\<close> and \<^verbatim>\<open>subprocess.run\<close> return a new one.

  \<^item> \<open>os_name\<close> is \<^verbatim>\<open>os.name\<close>; \<open>script_dir\<close> is \<^verbatim>\<open>Path(__file__).parent\<close>;
    \<open>gui_available\<close> is \<^verbatim>\<open>GUI_AVAILABLE\<close>; \<open>argparse_help\<close> is what
    \<^verbatim>\<open>parser.print_help()\<close> writes.
  \<^item> \<open>print_error s\<close> is the exception \<^verbatim>\<open>print(s)\<close> raises, if any: \<^verbatim>\<open>UnicodeEncodeError\<close>
    when the encoding of standard output has no code for a character of \<open>s\<close>.
  \<^item> \<open>path_join a b\<close> is \<^verbatim>\<open>str(Path(a) / b)\<close>.
  \<^item> \<open>path_exists st p\<close> is \<^verbatim>\<open>Path(p).exists()\<close>: the answer (\<open>Inr\<close>), or the \<^verbatim>\<open>OSError\<close>
    it lets through (\<open>Inl\<close>) when the path cannot be examined (a name that is too long, a
    directory that may not be searched).
  \<^item> \<open>path_mkdir st p parents exist_ok\<close> is \<^verbatim>\<open>Path(p).mkdir(parents=.., exist_ok=..)\<close>:
    the exception it raises, if any, and the world afterwards.
  \<^item> \<open>subprocess_run st cmd cwd timeout\<close> is
    \<^verbatim>\<open>subprocess.run(cmd, cwd=cwd, capture_output=True, text=True, timeout=timeout)\<close>:
    its outcome and the world afterwards.
  \<^item> \<open>path_is_dir\<close> is \<^verbatim>\<open>Path(p).is_dir()\<close>; the wrapper never calls it, the statements
    about directory creation do.

  The calls \<^verbatim>\<open>shutil.which\<close>, \<^verbatim>\<open>os.environ.get\<close> and \<^verbatim>\<open>Path.resolve\<close> are taken to return
  normally.
\<close>

record 'st platform =
  os_name :: string
  script_dir :: string
  gui_available :: bool
  argparse_help :: string
  print_error :: "string \<Rightarrow> py_exception option"
  shutil_which :: "'st \<Rightarrow> string \<Rightarrow> string option"
  environ_get :: "'st \<Rightarrow> string \<Rightarrow> string option"
  path_join :: "string \<Rightarrow> string \<Rightarrow> string"
  path_exists :: "'st \<Rightarrow> string \<Rightarrow> py_exception + bool"
  path_is_dir :: "'st \<Rightarrow> string \<Rightarrow> bool"
  path_mkdir :: "'st \<Rightarrow> string \<Rightarrow> bool \<Rightarrow> bool \<Rightarrow> py_exception option \<times> 'st"
  path_resolve :: "'st \<Rightarrow> string \<Rightarrow> string"
  subprocess_run :: "'st \<Rightarrow> string list \<Rightarrow> string option \<Rightarrow> nat \<Rightarrow> run_outcome \<times> 'st"

text \<open>
  A run of the program is followed in a machine state: the world, the lines printed so
  far (one entry for each \<^verbatim>\<open>print\<close> that returned), and the calls made to the platform,
  in order.
\<close>

datatype call =
    Which string
  | Environ_get string
  | Path_exists string
  | Path_mkdir string bool bool
  | Path_resolve string
  | Subprocess_run "string list" "string option" nat

record 'st machine =
  world :: 'st
  printed :: "string list"
  calls :: "call list"

definition start :: "'st \<Rightarrow> 'st machine" where
  "start st = \<lparr>world = st, printed = [], calls = []\<rparr>"

text \<open>\<^verbatim>\<open>print(s)\<close>: the line is written, or the exception is raised and nothing is written.\<close>

definition py_print :: "'st platform \<Rightarrow> string \<Rightarrow> 'st machine \<Rightarrow> py_exception option \<times> 'st machine" where
  "py_print P s m =
     (case print_error P s of
        None \<Rightarrow> (None, m\<lparr>printed := printed m @ [s]\<rparr>)
      | Some e \<Rightarrow> (Some e, m))"

text \<open>Consecutive \<^verbatim>\<open>print\<close> statements: the first that raises ends the sequence.\<close>

fun print_lines :: "'st platform \<Rightarrow> string list \<Rightarrow> 'st machine \<Rightarrow> py_exception option \<times> 'st machine" where
  "print_lines P [] m = (None, m)"
| "print_lines P (s # ss) m =
     (case py_print P s m of
        (None, m') \<Rightarrow> print_lines P ss m'
      | (Some e, m') \<Rightarrow> (Some e, m'))"

text \<open>Consecutive \<^verbatim>\<open>print\<close> statements followed by \<^verbatim>\<open>return b\<close>.\<close>

definition print_then_return ::
  "'st platform \<Rightarrow> string list \<Rightarrow> bool \<Rightarrow> 'st machine \<Rightarrow> (py_exception + bool) \<times> 'st machine" where
  "print_then_return P ss b m =
     (case print_lines P ss m of
        (None, m') \<Rightarrow> (Inr b, m')
      | (Some e, m') \<Rightarrow> (Inl e, m'))"

definition note_call :: "call \<Rightarrow> 'st machine \<Rightarrow> 'st machine" where
  "note_call c m = m\<lparr>calls := calls m @ [c]\<rparr>"

definition do_which :: "'st platform \<Rightarrow> string \<Rightarrow> 'st machine \<Rightarrow> string option \<times> 'st machine" where
  "do_which P name m = (shutil_which P (world m) name, note_call (Which name) m)"

definition do_environ_get ::
  "'st platform \<Rightarrow> string \<Rightarrow> 'st machine \<Rightarrow> string option \<times> 'st machine" where
  "do_environ_get P key m = (environ_get P (world m) key, note_call (Environ_get key) m)"

definition do_exists ::
  "'st platform \<Rightarrow> string \<Rightarrow> 'st machine \<Rightarrow> (py_exception + bool) \<times> 'st machine" where
  "do_exists P p m = (path_exists P (world m) p, note_call (Path_exists p) m)"

definition do_resolve :: "'st platform \<Rightarrow> string \<Rightarrow> 'st machine \<Rightarrow> string \<times> 'st machine" where
  "do_resolve P p m = (path_resolve P (world m) p, note_call (Path_resolve p) m)"

definition do_mkdir ::
  "'st platform \<Rightarrow> string \<Rightarrow> bool \<Rightarrow> bool \<Rightarrow> 'st machine \<Rightarrow> py_exception option \<times> 'st machine" where
  "do_mkdir P p parents exist_ok m =
     (case path_mkdir P (world m) p parents exist_ok of
        (r, st') \<Rightarrow> (r, (note_call (Path_mkdir p parents exist_ok) m)\<lparr>world := st'\<rparr>))"

text \<open>The program sees the completed process or the exception, not the child's status.\<close>

definition do_run ::
  "'st platform \<Rightarrow> string list \<Rightarrow> string option \<Rightarrow> nat \<Rightarrow> 'st machine
     \<Rightarrow> (py_exception + completed_process) \<times> 'st machine" where
  "do_run P cmd cwd t m =
     (case subprocess_run P (world m) cmd cwd t of
        (Completed r, st') \<Rightarrow> (Inr r, (note_call (Subprocess_run cmd cwd t) m)\<lparr>world := st'\<rparr>)
      | (Raised e status, st') \<Rightarrow> (Inl e, (note_call (Subprocess_run cmd cwd t) m)\<lparr>world := st'\<rparr>))"

section \<open>SPZConverter\<close>

record converter =
  project_root :: string
  java_main_class :: string
  maven_module :: string

text \<open>\<^verbatim>\<open>SPZConverter.__init__\<close>: an absent or empty project root means the script's directory.\<close>

definition SPZConverter_init :: "'st platform \<Rightarrow> string option \<Rightarrow> converter" where
  "SPZConverter_init P root =
     \<lparr>project_root = (case root of None \<Rightarrow> script_dir P
                        | Some r \<Rightarrow> if r \<noteq> [] then r else script_dir P),
      java_main_class = ''de.javagl.jspz.examples.SpzToTileset'',
      maven_module = ''jspz-main''\<rparr>"

text \<open>The two platform-dependent names, written inline in the source.\<close>

definition mvn_cmd :: "'st platform \<Rightarrow> string" where
  "mvn_cmd P = (if os_name P = ''nt'' then ''mvn.cmd'' else ''mvn'')"

definition java_exe :: "'st platform \<Rightarrow> string \<Rightarrow> string" where
  "java_exe P java_home =
     path_join P (path_join P java_home ''bin'') (if os_name P = ''nt'' then ''java.exe'' else ''java'')"

text \<open>
  \<^verbatim>\<open>check_prerequisites\<close>: four checks, each returning at once on failure. The result is
  \<open>Inr\<close> of the pair the method returns, or \<open>Inl e\<close> when the exception \<open>e\<close> leaves it: the
  existence test of the Java executable stands outside the \<^verbatim>\<open>try\<close>. The version query runs
  inside \<^verbatim>\<open>try ... except Exception\<close>, so whatever it raises becomes a message.
\<close>

definition check_prerequisites ::
  "'st platform \<Rightarrow> 'st machine \<Rightarrow> (py_exception + bool \<times> string) \<times> 'st machine" where
  "check_prerequisites P m =
     (case do_which P (mvn_cmd P) m of (found, m1) \<Rightarrow>
      if \<not> truthy found then
        (Inr (False, ''Maven not found in PATH. Please install Maven and add it to PATH.''), m1)
      else
      (case do_environ_get P ''JAVA_HOME'' m1 of (java_home, m2) \<Rightarrow>
       (case java_home of
          None \<Rightarrow>
            (Inr (False, ''JAVA_HOME environment variable is not set. Please set JAVA_HOME to your JDK installation.''), m2)
        | Some jh \<Rightarrow>
          if jh = [] then
            (Inr (False, ''JAVA_HOME environment variable is not set. Please set JAVA_HOME to your JDK installation.''), m2)
          else
          (case do_exists P (java_exe P jh) m2 of
             (Inl e, m3) \<Rightarrow> (Inl e, m3)
           | (Inr present, m3) \<Rightarrow>
             if \<not> present then
               (Inr (False, ''Java executable not found at '' @ java_exe P jh @ ''. Please check JAVA_HOME setting.''), m3)
             else
             (case do_run P [mvn_cmd P, ''--version''] None 30 m3 of
                (Inr result, m4) \<Rightarrow>
                  if returncode result \<noteq> 0 then
                    (Inr (False, ''Maven test failed: '' @ stderr result), m4)
                  else (Inr (True, []), m4)
              | (Inl e, m4) \<Rightarrow> (Inr (False, ''Maven test failed: '' @ exc_str e), m4))))))"

text \<open>The list bound to \<^verbatim>\<open>cmd\<close> in \<^verbatim>\<open>convert\<close>, from the two resolved paths.\<close>

definition build_cmd :: "'st platform \<Rightarrow> converter \<Rightarrow> string \<Rightarrow> string \<Rightarrow> string \<Rightarrow> string list" where
  "build_cmd P self abs_input abs_output content_filename =
     [mvn_cmd P, ''exec:java'',
      ''-Dexec.mainClass='' @ java_main_class self,
      ''-Dexec.args='' @ abs_input @ '' '' @ abs_output @ '' '' @ content_filename,
      ''-pl'', maven_module self,
      ''-q'']"

text \<open>
  The body of the \<^verbatim>\<open>try\<close> statement of \<^verbatim>\<open>convert\<close>: two progress lines, the launch, and
  the report of a completed process. \<open>Inl e\<close> is an exception raised in the body, by the
  launch or by a \<^verbatim>\<open>print\<close>, on its way to the handlers.
\<close>

definition convert_try ::
  "'st platform \<Rightarrow> converter \<Rightarrow> string \<Rightarrow> string \<Rightarrow> string \<Rightarrow> string list \<Rightarrow> 'st machine
     \<Rightarrow> (py_exception + bool) \<times> 'st machine" where
  "convert_try P self input_file output_dir content_filename cmd m =
     (case print_lines P
             [''Converting '' @ input_file @ '' to '' @ output_dir @ ''...'',
              ''Running: '' @ str_join '' '' cmd] m of
        (Some e, m1) \<Rightarrow> (Inl e, m1)
      | (None, m1) \<Rightarrow>
        (case do_run P cmd (Some (project_root self)) 300 m1 of
           (Inl e, m2) \<Rightarrow> (Inl e, m2)
         | (Inr result, m2) \<Rightarrow>
           if returncode result = 0 then
             print_then_return P
               [check_mark @ '' Conversion completed successfully!'',
                ''  Output files:'',
                ''    - '' @ path_join P output_dir ''tileset.json'',
                ''    - '' @ path_join P output_dir content_filename]
               True m2
           else
             print_then_return P
               ([cross_mark @ '' Conversion failed!'',
                 ''Return code: '' @ str_int (returncode result)] @
                (if stdout result \<noteq> [] then [''Standard output: '' @ stdout result] else []) @
                (if stderr result \<noteq> [] then [''Error output: '' @ stderr result] else []))
               False m2))"

text \<open>
  The three \<^verbatim>\<open>except\<close> clauses of \<^verbatim>\<open>convert\<close>, tried in the order of the source. Each
  prints one line and returns \<^verbatim>\<open>False\<close>; an exception raised by that \<^verbatim>\<open>print\<close> has no
  handler left.
\<close>

fun convert_except ::
  "'st platform \<Rightarrow> py_exception \<Rightarrow> 'st machine \<Rightarrow> (py_exception + bool) \<times> 'st machine" where
  "convert_except P (TimeoutExpired s) m =
     print_then_return P [cross_mark @ '' Conversion timed out after 5 minutes''] False m"
| "convert_except P (FileNotFoundError s) m =
     print_then_return P [cross_mark @ '' Command not found: '' @ s] False m"
| "convert_except P (OtherException s) m =
     print_then_return P [cross_mark @ '' Unexpected error: '' @ s] False m"

text \<open>
  \<^verbatim>\<open>convert\<close>. The result is \<open>Inr b\<close> when the method returns \<open>b\<close> and \<open>Inl e\<close> when the
  exception \<open>e\<close> leaves it. The prerequisite check, the two early reports, the existence
  test of the input and the directory creation stand before the \<^verbatim>\<open>try\<close>.
\<close>

definition convert ::
  "'st platform \<Rightarrow> converter \<Rightarrow> string \<Rightarrow> string \<Rightarrow> string \<Rightarrow> 'st machine
     \<Rightarrow> (py_exception + bool) \<times> 'st machine" where
  "convert P self input_file output_dir content_filename m =
     (case check_prerequisites P m of
        (Inl e, m1) \<Rightarrow> (Inl e, m1)
      | (Inr (prereq_ok, prereq_error), m1) \<Rightarrow>
        if \<not> prereq_ok then
          print_then_return P [cross_mark @ '' Prerequisites check failed: '' @ prereq_error] False m1
        else
        (case do_exists P input_file m1 of
           (Inl e, m2) \<Rightarrow> (Inl e, m2)
         | (Inr present, m2) \<Rightarrow>
           if \<not> present then
             print_then_return P
               [cross_mark @ '' Input file '' @ [quote_char] @ input_file @ [quote_char]
                  @ '' does not exist''] False m2
           else
           (case do_mkdir P output_dir True True m2 of
              (Some e, m3) \<Rightarrow> (Inl e, m3)
            | (None, m3) \<Rightarrow>
              (case do_resolve P input_file m3 of (abs_input, m4) \<Rightarrow>
              (case do_resolve P output_dir m4 of (abs_output, m5) \<Rightarrow>
               let cmd = build_cmd P self abs_input abs_output content_filename in
               (case convert_try P self input_file output_dir content_filename cmd m5 of
                  (Inr b, m6) \<Rightarrow> (Inr b, m6)
                | (Inl e, m6) \<Rightarrow> convert_except P e m6))))))"

section \<open>Command line entry\<close>

text \<open>
  What the user wrote on the command line, after \<^verbatim>\<open>argparse\<close> has recognised it: each
  option is present or not. \<^verbatim>\<open>parse_args\<close> fills in the defaults the parser declares:
  \<^verbatim>\<open>None\<close> for the two positionals and for \<^verbatim>\<open>--project-root\<close>, \<^verbatim>\<open>content.glb\<close> for
  \<^verbatim>\<open>--content-name\<close>.
\<close>

record command_line =
  cl_gui :: bool
  cl_input_file :: "string option"
  cl_output_dir :: "string option"
  cl_content_name :: "string option"
  cl_project_root :: "string option"

record namespace =
  gui :: bool
  input_file :: "string option"
  output_dir :: "string option"
  content_name :: string
  project_root_arg :: "string option"

definition parse_args :: "command_line \<Rightarrow> namespace" where
  "parse_args cl =
     \<lparr>gui = cl_gui cl,
      input_file = cl_input_file cl,
      output_dir = cl_output_dir cl,
      content_name = (case cl_content_name cl of None \<Rightarrow> ''content.glb'' | Some n \<Rightarrow> n),
      project_root_arg = cl_project_root cl\<rparr>"

text \<open>
  How \<^verbatim>\<open>main\<close> ends: \<^verbatim>\<open>sys.exit(n)\<close>, an exception nobody caught, or the hand-over to the
  graphical form, whose event loop is outside this development.
\<close>

datatype ending = Exit int | Uncaught py_exception | Gui_mainloop

text \<open>One \<^verbatim>\<open>print\<close> followed by \<^verbatim>\<open>sys.exit(n)\<close>.\<close>

definition print_then_exit :: "'st platform \<Rightarrow> string \<Rightarrow> int \<Rightarrow> 'st machine \<Rightarrow> ending \<times> 'st machine" where
  "print_then_exit P s n m =
     (case py_print P s m of
        (None, m') \<Rightarrow> (Exit n, m')
      | (Some e, m') \<Rightarrow> (Uncaught e, m'))"

definition main :: "'st platform \<Rightarrow> command_line \<Rightarrow> 'st machine \<Rightarrow> ending \<times> 'st machine" where
  "main P cl m =
     (let args = parse_args cl in
      if gui args then
        (if \<not> gui_available P
         then print_then_exit P ''Error: GUI not available. Please install tkinter.'' 1 m
         else (Gui_mainloop, m))
      else
      (case (input_file args, output_dir args) of
         (Some i, Some d) \<Rightarrow>
           if i = [] \<or> d = [] then print_then_exit P (argparse_help P) 1 m
           else
           (case convert P (SPZConverter_init P (project_root_arg args)) i d (content_name args) m of
              (Inr success, m') \<Rightarrow> (Exit (if success then 0 else 1), m')
            | (Inl e, m') \<Rightarrow> (Uncaught e, m'))
       | _ \<Rightarrow> print_then_exit P (argparse_help P) 1 m))"

section \<open>Vocabulary of the statements\<close>

text \<open>
  What the Python documentation promises of \<^verbatim>\<open>Path.mkdir\<close>: with \<^verbatim>\<open>exist_ok=True\<close> an
  existing directory is left alone and nothing is raised; after a call that returns, the
  path is a directory. What is expected of the launched tools: they remove no directory.
  And the two conditions under which no call but the launch and the directory creation
  raises: every line can be written to standard output, and the two paths an invocation
  tests for existence (the Java executable, the input file) can be examined.
\<close>

definition mkdir_exist_ok :: "'st platform \<Rightarrow> bool" where
  "mkdir_exist_ok P =
     (\<forall>st p parents. path_is_dir P st p \<longrightarrow> path_mkdir P st p parents True = (None, st))"

definition mkdir_creates :: "'st platform \<Rightarrow> bool" where
  "mkdir_creates P =
     (\<forall>st p parents exist_ok st'.
        path_mkdir P st p parents exist_ok = (None, st') \<longrightarrow> path_is_dir P st' p)"

definition run_keeps_dirs :: "'st platform \<Rightarrow> bool" where
  "run_keeps_dirs P =
     (\<forall>st cmd cwd t p.
        path_is_dir P st p \<longrightarrow> path_is_dir P (snd (subprocess_run P st cmd cwd t)) p)"

definition prints_return :: "'st platform \<Rightarrow> bool" where
  "prints_return P = (\<forall>s. print_error P s = None)"

definition exists_returns :: "'st platform \<Rightarrow> string \<Rightarrow> bool" where
  "exists_returns P p =
     (\<forall>st. (\<exists>b. path_exists P st p = Inr b)
         \<and> (\<forall>jh. environ_get P st ''JAVA_HOME'' = Some jh \<longrightarrow>
                (\<exists>b. path_exists P st (java_exe P jh) = Inr b)))"

section \<open>A concrete host\<close>

text \<open>
  A POSIX host for the closed instances below. Its world is the list of directories
  created so far; the files \<^verbatim>\<open>/opt/jdk/bin/java\<close> and \<^verbatim>\<open>scan.spz\<close> exist. A path of more
  than 255 characters cannot be examined (\<^verbatim>\<open>ENAMETOOLONG\<close>). Joining keeps an absolute
  second part as it is. The parameters are: whether standard output is ASCII only, what
  \<^verbatim>\<open>shutil.which\<close> finds for \<^verbatim>\<open>mvn\<close>, the value of \<^verbatim>\<open>JAVA_HOME\<close>, the outcome of the version
  query, and the outcome of any other command.
\<close>

definition host ::
  "bool \<Rightarrow> string option \<Rightarrow> string option \<Rightarrow> run_outcome \<Rightarrow> run_outcome
     \<Rightarrow> (string list) platform" where
  "host ascii_only mvn jh version_outcome outcome =
     \<lparr>os_name = ''posix'',
      script_dir = ''/srv/jspz'',
      gui_available = False,
      argparse_help = ''usage: spz_converter.py [-h] [--gui] [input_file] [output_dir]'',
      print_error = (\<lambda>s.
         if ascii_only \<and> list_ex (\<lambda>c. 127 < (of_char c :: nat)) s
         then Some (OtherException ''UnicodeEncodeError: ordinal not in range(128)'')
         else None),
      shutil_which = (\<lambda>st name. if name = ''mvn'' then mvn else None),
      environ_get = (\<lambda>st key. if key = ''JAVA_HOME'' then jh else None),
      path_join = (\<lambda>a b.
         case b of [] \<Rightarrow> a | c # cs \<Rightarrow> if c = CHR ''/'' then b else a @ ''/'' @ b),
      path_exists = (\<lambda>st p.
         if 255 < length p
         then Inl (OtherException ''[Errno 36] File name too long'')
         else Inr (p \<in> set st \<or> p = ''/opt/jdk/bin/java'' \<or> p = ''scan.spz'')),
      path_is_dir = (\<lambda>st p. p \<in> set st),
      path_mkdir = (\<lambda>st p parents exist_ok.
         if p \<in> set st then
           (if exist_ok then (None, st)
            else (Some (OtherException (''[Errno 17] File exists: '' @ [quote_char] @ p @ [quote_char])), st))
         else if p = ''/opt/jdk/bin/java'' \<or> p = ''scan.spz'' then
           (Some (OtherException (''[Errno 17] File exists: '' @ [quote_char] @ p @ [quote_char])), st)
         else (None, p # st)),
      path_resolve = (\<lambda>st p. ''/work/'' @ p),
      subprocess_run = (\<lambda>st cmd cwd t.
         if cmd = [''mvn'', ''--version''] then (version_outcome, st) else (outcome, st))\<rparr>"

definition maven_ok :: run_outcome where
  "maven_ok = Completed \<lparr>returncode = 0, stdout = ''Apache Maven 3.9.6'', stderr = []\<rparr>"

definition maven_broken :: run_outcome where
  "maven_broken =
     Completed \<lparr>returncode = 1, stdout = ''[INFO] Scanning'', stderr = ''[ERROR] No plugin found''\<rparr>"

definition good_host :: "run_outcome \<Rightarrow> (string list) platform" where
  "good_host outcome = host False (Some ''/usr/bin/mvn'') (Some ''/opt/jdk'') maven_ok outcome"

definition ascii_host :: "run_outcome \<Rightarrow> (string list) platform" where
  "ascii_host outcome = host True (Some ''/usr/bin/mvn'') (Some ''/opt/jdk'') maven_ok outcome"


section \<open>Steps of the machine\<close>

lemma note_call_fields [simp]:
  "world (note_call c m) = world m"
  "printed (note_call c m) = printed m"
  "calls (note_call c m) = calls m @ [c]"
  by (simp_all add: note_call_def)

lemma py_print_ok:
  "print_error P s = None \<Longrightarrow> py_print P s m = (None, m\<lparr>printed := printed m @ [s]\<rparr>)"
  by (simp add: py_print_def)

lemma py_print_raises:
  "print_error P s = Some e \<Longrightarrow> py_print P s m = (Some e, m)"
  by (simp add: py_print_def)

lemma print_lines_ok:
  "\<forall>s \<in> set ss. print_error P s = None \<Longrightarrow>
     print_lines P ss m = (None, m\<lparr>printed := printed m @ ss\<rparr>)"
  by (induction ss arbitrary: m) (simp_all add: py_print_def)

lemma print_then_return_ok:
  "\<forall>s \<in> set ss. print_error P s = None \<Longrightarrow>
     print_then_return P ss b m = (Inr b, m\<lparr>printed := printed m @ ss\<rparr>)"
  by (simp add: print_then_return_def print_lines_ok)

lemma print_then_return_raises:
  "print_error P s = Some e \<Longrightarrow> print_then_return P (s # ss) b m = (Inl e, m)"
  by (simp add: print_then_return_def py_print_def)

lemma print_lines_frame [simp]:
  "world (snd (print_lines P ss m)) = world m"
  "calls (snd (print_lines P ss m)) = calls m"
  by (induction ss arbitrary: m) (simp_all add: py_print_def split: option.splits)

lemma print_then_return_frame [simp]:
  "world (snd (print_then_return P ss b m)) = world m"
  "calls (snd (print_then_return P ss b m)) = calls m"
proof -
  have "snd (print_then_return P ss b m) = snd (print_lines P ss m)"
    by (simp add: print_then_return_def split: prod.splits option.splits)
  then show "world (snd (print_then_return P ss b m)) = world m"
    and "calls (snd (print_then_return P ss b m)) = calls m"
    by simp_all
qed

lemma convert_except_frame [simp]:
  "world (snd (convert_except P e m)) = world m"
  "calls (snd (convert_except P e m)) = calls m"
  by (cases e; simp)+

lemmas platform_steps =
  do_which_def do_environ_get_def do_exists_def do_resolve_def do_mkdir_def do_run_def

section \<open>The prerequisite checks, one outcome at a time\<close>

lemma cp_maven_missing:
  assumes "\<not> truthy (shutil_which P (world m) (mvn_cmd P))"
  shows "check_prerequisites P m =
           (Inr (False, ''Maven not found in PATH. Please install Maven and add it to PATH.''),
            note_call (Which (mvn_cmd P)) m)"
  using assms by (simp add: check_prerequisites_def platform_steps)

lemma cp_java_home_unset:
  assumes "truthy (shutil_which P (world m) (mvn_cmd P))"
      and "\<not> truthy (environ_get P (world m) ''JAVA_HOME'')"
  shows "check_prerequisites P m =
           (Inr (False, ''JAVA_HOME environment variable is not set. Please set JAVA_HOME to your JDK installation.''),
            note_call (Environ_get ''JAVA_HOME'') (note_call (Which (mvn_cmd P)) m))"
  using assms by (simp add: check_prerequisites_def platform_steps truthy_def split: option.splits)

lemma cp_java_exe_raises:
  assumes "truthy (shutil_which P (world m) (mvn_cmd P))"
      and "environ_get P (world m) ''JAVA_HOME'' = Some jh" and "jh \<noteq> []"
      and "path_exists P (world m) (java_exe P jh) = Inl e"
  shows "check_prerequisites P m =
           (Inl e,
            note_call (Path_exists (java_exe P jh))
              (note_call (Environ_get ''JAVA_HOME'') (note_call (Which (mvn_cmd P)) m)))"
  using assms by (simp add: check_prerequisites_def platform_steps)

lemma cp_java_exe_missing:
  assumes "truthy (shutil_which P (world m) (mvn_cmd P))"
      and "environ_get P (world m) ''JAVA_HOME'' = Some jh" and "jh \<noteq> []"
      and "path_exists P (world m) (java_exe P jh) = Inr False"
  shows "check_prerequisites P m =
           (Inr (False, ''Java executable not found at '' @ java_exe P jh @ ''. Please check JAVA_HOME setting.''),
            note_call (Path_exists (java_exe P jh))
              (note_call (Environ_get ''JAVA_HOME'') (note_call (Which (mvn_cmd P)) m)))"
  using assms by (simp add: check_prerequisites_def platform_steps)

lemma cp_version_query:
  assumes "truthy (shutil_which P (world m) (mvn_cmd P))"
      and "environ_get P (world m) ''JAVA_HOME'' = Some jh" and "jh \<noteq> []"
      and "path_exists P (world m) (java_exe P jh) = Inr True"
      and "subprocess_run P (world m) [mvn_cmd P, ''--version''] None 30 = (res, st')"
  shows "check_prerequisites P m =
           (Inr (case res of
                   Raised e status \<Rightarrow> (False, ''Maven test failed: '' @ exc_str e)
                 | Completed r \<Rightarrow>
                     if returncode r \<noteq> 0 then (False, ''Maven test failed: '' @ stderr r)
                     else (True, [])),
            (note_call (Subprocess_run [mvn_cmd P, ''--version''] None 30)
              (note_call (Path_exists (java_exe P jh))
                (note_call (Environ_get ''JAVA_HOME'') (note_call (Which (mvn_cmd P)) m))))
            \<lparr>world := st'\<rparr>)"
  using assms by (simp add: check_prerequisites_def platform_steps split: run_outcome.splits)

lemma cp_printed: "printed (snd (check_prerequisites P m)) = printed m"
  by (auto simp add: check_prerequisites_def platform_steps
        split: prod.splits option.splits sum.splits run_outcome.splits)

lemma cp_pass_shape:
  assumes "check_prerequisites P m = (Inr (True, msg), m1)"
  shows "msg = [] \<and> printed m1 = printed m
         \<and> (\<exists>jh. calls m1 = calls m @ [Which (mvn_cmd P), Environ_get ''JAVA_HOME'',
               Path_exists (java_exe P jh), Subprocess_run [mvn_cmd P, ''--version''] None 30])"
  using assms
  by (auto simp add: check_prerequisites_def platform_steps
           split: prod.splits option.splits sum.splits if_splits run_outcome.splits)


section \<open>The paths through convert\<close>

lemma convert_prereq_raises:
  assumes "check_prerequisites P m = (Inl e, m1)"
  shows "convert P self inp out name m = (Inl e, m1)"
  using assms by (simp add: convert_def)

lemma convert_prereq_failed:
  assumes "check_prerequisites P m = (Inr (False, msg), m1)"
  shows "convert P self inp out name m =
           print_then_return P [cross_mark @ '' Prerequisites check failed: '' @ msg] False m1"
  using assms by (simp add: convert_def)

lemma convert_input_raises:
  assumes "check_prerequisites P m = (Inr (True, msg), m1)"
      and "path_exists P (world m1) inp = Inl e"
  shows "convert P self inp out name m = (Inl e, note_call (Path_exists inp) m1)"
  using assms by (simp add: convert_def platform_steps)

lemma convert_input_missing:
  assumes "check_prerequisites P m = (Inr (True, msg), m1)"
      and "path_exists P (world m1) inp = Inr False"
  shows "convert P self inp out name m =
           print_then_return P
             [cross_mark @ '' Input file '' @ [quote_char] @ inp @ [quote_char] @ '' does not exist'']
             False (note_call (Path_exists inp) m1)"
  using assms by (simp add: convert_def platform_steps)

lemma convert_mkdir_raises:
  assumes "check_prerequisites P m = (Inr (True, msg), m1)"
      and "path_exists P (world m1) inp = Inr True"
      and "path_mkdir P (world m1) out True True = (Some e, st2)"
  shows "convert P self inp out name m =
           (Inl e, (note_call (Path_mkdir out True True) (note_call (Path_exists inp) m1))\<lparr>world := st2\<rparr>)"
  using assms by (simp add: convert_def platform_steps)

lemma convert_reaches_try:
  assumes "check_prerequisites P m = (Inr (True, msg), m1)"
      and "path_exists P (world m1) inp = Inr True"
      and "path_mkdir P (world m1) out True True = (None, st2)"
  shows "convert P self inp out name m =
           (case convert_try P self inp out name
                   (build_cmd P self (path_resolve P st2 inp) (path_resolve P st2 out) name)
                   \<lparr>world = st2, printed = printed m1,
                    calls = calls m1 @
                      [Path_exists inp, Path_mkdir out True True, Path_resolve inp, Path_resolve out]\<rparr> of
              (Inr b, m6) \<Rightarrow> (Inr b, m6)
            | (Inl e, m6) \<Rightarrow> convert_except P e m6)"
  using assms by (cases m1) (simp add: convert_def platform_steps note_call_def Let_def)

lemma convert_try_launched:
  assumes "print_error P (''Converting '' @ inp @ '' to '' @ out @ ''...'') = None"
      and "print_error P (''Running: '' @ str_join '' '' cmd) = None"
      and "subprocess_run P (world m) cmd (Some (project_root self)) 300 = (res, st3)"
      and "launched = \<lparr>world = st3,
             printed = printed m @
               [''Converting '' @ inp @ '' to '' @ out @ ''...'', ''Running: '' @ str_join '' '' cmd],
             calls = calls m @ [Subprocess_run cmd (Some (project_root self)) 300]\<rparr>"
  shows "convert_try P self inp out name cmd m =
           (case res of
              Raised e status \<Rightarrow> (Inl e, launched)
            | Completed r \<Rightarrow>
                print_then_return P
                  (if returncode r = 0 then
                     [check_mark @ '' Conversion completed successfully!'',
                      ''  Output files:'',
                      ''    - '' @ path_join P out ''tileset.json'',
                      ''    - '' @ path_join P out name]
                   else
                     [cross_mark @ '' Conversion failed!'',
                      ''Return code: '' @ str_int (returncode r)] @
                     (if stdout r \<noteq> [] then [''Standard output: '' @ stdout r] else []) @
                     (if stderr r \<noteq> [] then [''Error output: '' @ stderr r] else []))
                  (returncode r = 0) launched)"
proof -
  have progress: "print_lines P
      [''Converting '' @ inp @ '' to '' @ out @ ''...'', ''Running: '' @ str_join '' '' cmd] m =
      (None, m\<lparr>printed := printed m @
         [''Converting '' @ inp @ '' to '' @ out @ ''...'', ''Running: '' @ str_join '' '' cmd]\<rparr>)"
    using assms(1,2) by (intro print_lines_ok) simp
  have run: "do_run P cmd (Some (project_root self)) 300
      (m\<lparr>printed := printed m @
         [''Converting '' @ inp @ '' to '' @ out @ ''...'', ''Running: '' @ str_join '' '' cmd]\<rparr>) =
      (case res of Raised e status \<Rightarrow> Inl e | Completed r \<Rightarrow> Inr r, launched)"
    using assms(3,4) by (cases m; cases res) (simp_all add: do_run_def note_call_def)
  show ?thesis
    by (simp only: convert_try_def progress run prod.case option.case)
       (cases res; simp)
qed

text \<open>The machine as the command is launched, and what each outcome leads to.\<close>

lemma convert_launched:
  assumes "check_prerequisites P m = (Inr (True, msg), m1)"
      and "path_exists P (world m1) inp = Inr True"
      and "path_mkdir P (world m1) out True True = (None, st2)"
      and "cmd = build_cmd P self (path_resolve P st2 inp) (path_resolve P st2 out) name"
      and "print_error P (''Converting '' @ inp @ '' to '' @ out @ ''...'') = None"
      and "print_error P (''Running: '' @ str_join '' '' cmd) = None"
      and "subprocess_run P st2 cmd (Some (project_root self)) 300 = (res, st3)"
      and "launched = \<lparr>world = st3,
             printed = printed m1 @
               [''Converting '' @ inp @ '' to '' @ out @ ''...'', ''Running: '' @ str_join '' '' cmd],
             calls = calls m1 @
               [Path_exists inp, Path_mkdir out True True, Path_resolve inp, Path_resolve out,
                Subprocess_run cmd (Some (project_root self)) 300]\<rparr>"
  shows "convert P self inp out name m =
           (case res of
              Raised e status \<Rightarrow> convert_except P e launched
            | Completed r \<Rightarrow>
                (case print_then_return P
                        (if returncode r = 0 then
                           [check_mark @ '' Conversion completed successfully!'',
                            ''  Output files:'',
                            ''    - '' @ path_join P out ''tileset.json'',
                            ''    - '' @ path_join P out name]
                         else
                           [cross_mark @ '' Conversion failed!'',
                            ''Return code: '' @ str_int (returncode r)] @
                           (if stdout r \<noteq> [] then [''Standard output: '' @ stdout r] else []) @
                           (if stderr r \<noteq> [] then [''Error output: '' @ stderr r] else []))
                        (returncode r = 0) launched of
                   (Inr b, m') \<Rightarrow> (Inr b, m')
                 | (Inl e, m') \<Rightarrow> convert_except P e m'))"
proof -
  let ?m5 = "\<lparr>world = st2, printed = printed m1,
              calls = calls m1 @
                [Path_exists inp, Path_mkdir out True True, Path_resolve inp, Path_resolve out]\<rparr>"
  have run: "subprocess_run P (world ?m5) cmd (Some (project_root self)) 300 = (res, st3)"
    using assms(7) by simp
  have shape: "launched = \<lparr>world = st3,
             printed = printed ?m5 @
               [''Converting '' @ inp @ '' to '' @ out @ ''...'', ''Running: '' @ str_join '' '' cmd],
             calls = calls ?m5 @ [Subprocess_run cmd (Some (project_root self)) 300]\<rparr>"
    using assms(8) by simp
  note body = convert_try_launched [OF assms(5,6) run shape, of name]
  show ?thesis
    unfolding convert_reaches_try [OF assms(1-3)] assms(4) [symmetric] body
    by (cases res) simp_all
qed

lemma convert_completed:
  assumes "check_prerequisites P m = (Inr (True, msg), m1)"
      and "path_exists P (world m1) inp = Inr True"
      and "path_mkdir P (world m1) out True True = (None, st2)"
      and "cmd = build_cmd P self (path_resolve P st2 inp) (path_resolve P st2 out) name"
      and "subprocess_run P st2 cmd (Some (project_root self)) 300 = (Completed r, st3)"
      and "report =
             (if returncode r = 0 then
                [check_mark @ '' Conversion completed successfully!'',
                 ''  Output files:'',
                 ''    - '' @ path_join P out ''tileset.json'',
                 ''    - '' @ path_join P out name]
              else
                [cross_mark @ '' Conversion failed!'',
                 ''Return code: '' @ str_int (returncode r)] @
                (if stdout r \<noteq> [] then [''Standard output: '' @ stdout r] else []) @
                (if stderr r \<noteq> [] then [''Error output: '' @ stderr r] else []))"
      and "lines = [''Converting '' @ inp @ '' to '' @ out @ ''...'',
                    ''Running: '' @ str_join '' '' cmd] @ report"
      and "\<forall>s \<in> set lines. print_error P s = None"
  shows "convert P self inp out name m =
           (Inr (returncode r = 0),
            \<lparr>world = st3,
             printed = printed m1 @ lines,
             calls = calls m1 @
               [Path_exists inp, Path_mkdir out True True, Path_resolve inp, Path_resolve out,
                Subprocess_run cmd (Some (project_root self)) 300]\<rparr>)"
proof -
  from assms(7,8) have p1: "print_error P (''Converting '' @ inp @ '' to '' @ out @ ''...'') = None"
    and p2: "print_error P (''Running: '' @ str_join '' '' cmd) = None"
    and rest: "\<forall>s \<in> set report. print_error P s = None"
    by simp_all
  note launched = convert_launched [OF assms(1-4) p1 p2 assms(5) refl]
  from rest assms(6) have rest': "\<forall>s \<in> set (if returncode r = 0 then
                [check_mark @ '' Conversion completed successfully!'',
                 ''  Output files:'',
                 ''    - '' @ path_join P out ''tileset.json'',
                 ''    - '' @ path_join P out name]
              else
                [cross_mark @ '' Conversion failed!'',
                 ''Return code: '' @ str_int (returncode r)] @
                (if stdout r \<noteq> [] then [''Standard output: '' @ stdout r] else []) @
                (if stderr r \<noteq> [] then [''Error output: '' @ stderr r] else [])). print_error P s = None"
    by simp
  show ?thesis
    unfolding launched
    by (simp only: run_outcome.case print_then_return_ok [OF rest'])
       (simp add: assms(6,7))
qed


lemma convert_raised:
  assumes "check_prerequisites P m = (Inr (True, msg), m1)"
      and "path_exists P (world m1) inp = Inr True"
      and "path_mkdir P (world m1) out True True = (None, st2)"
      and "cmd = build_cmd P self (path_resolve P st2 inp) (path_resolve P st2 out) name"
      and "print_error P (''Converting '' @ inp @ '' to '' @ out @ ''...'') = None"
      and "print_error P (''Running: '' @ str_join '' '' cmd) = None"
      and "subprocess_run P st2 cmd (Some (project_root self)) 300 = (Raised e status, st3)"
  shows "convert P self inp out name m =
           convert_except P e
             \<lparr>world = st3,
              printed = printed m1 @
                [''Converting '' @ inp @ '' to '' @ out @ ''...'', ''Running: '' @ str_join '' '' cmd],
              calls = calls m1 @
                [Path_exists inp, Path_mkdir out True True, Path_resolve inp, Path_resolve out,
                 Subprocess_run cmd (Some (project_root self)) 300]\<rparr>"
  using convert_launched [OF assms refl] by simp

section \<open>The concrete host, evaluated\<close>

lemma host_fields [simp]:
  "os_name (host a mvn jh v oc) = ''posix''"
  "script_dir (host a mvn jh v oc) = ''/srv/jspz''"
  "mvn_cmd (host a mvn jh v oc) = ''mvn''"
  "shutil_which (host a mvn jh v oc) st ''mvn'' = mvn"
  "environ_get (host a mvn jh v oc) st ''JAVA_HOME'' = jh"
  "path_join (host a mvn jh v oc) x y =
     (case y of [] \<Rightarrow> x | c # cs \<Rightarrow> if c = CHR ''/'' then y else x @ ''/'' @ y)"
  "path_resolve (host a mvn jh v oc) st p = ''/work/'' @ p"
  "path_exists (host a mvn jh v oc) st p =
     (if 255 < length p then Inl (OtherException ''[Errno 36] File name too long'')
      else Inr (p \<in> set st \<or> p = ''/opt/jdk/bin/java'' \<or> p = ''scan.spz''))"
  "path_is_dir (host a mvn jh v oc) st p = (p \<in> set st)"
  "print_error (host a mvn jh v oc) s =
     (if a \<and> list_ex (\<lambda>c. 127 < (of_char c :: nat)) s
      then Some (OtherException ''UnicodeEncodeError: ordinal not in range(128)'') else None)"
  "subprocess_run (host a mvn jh v oc) st [''mvn'', ''--version''] cwd t = (v, st)"
  "subprocess_run (host a mvn jh v oc) st (''mvn'' # ''exec:java'' # rest) cwd t = (oc, st)"
  by (simp_all add: host_def mvn_cmd_def)

lemma host_java_exe [simp]: "java_exe (host a mvn jh v oc) h = h @ ''/bin/java''"
  by (simp add: java_exe_def)

lemma host_run_cmd [simp]:
  "subprocess_run (host a mvn jh v oc) st (build_cmd (host a mvn jh v oc) self x y n) cwd t = (oc, st)"
  by (simp add: build_cmd_def)

lemma host_prereq:
  "check_prerequisites (host a (Some ''/usr/bin/mvn'') (Some ''/opt/jdk'') maven_ok oc) (start st) =
     (Inr (True, []),
      \<lparr>world = st, printed = [],
       calls = [Which ''mvn'', Environ_get ''JAVA_HOME'', Path_exists ''/opt/jdk/bin/java'',
                Subprocess_run [''mvn'', ''--version''] None 30]\<rparr>)"
proof -
  let ?H = "host a (Some ''/usr/bin/mvn'') (Some ''/opt/jdk'') maven_ok oc"
  have w: "truthy (shutil_which ?H (world (start st)) (mvn_cmd ?H))"
    by (simp add: truthy_def)
  have j: "environ_get ?H (world (start st)) ''JAVA_HOME'' = Some ''/opt/jdk''" by simp
  have x: "path_exists ?H (world (start st)) (java_exe ?H ''/opt/jdk'') = Inr True" by simp
  have v: "subprocess_run ?H (world (start st)) [mvn_cmd ?H, ''--version''] None 30
             = (maven_ok, st)"
    by (simp add: start_def)
  from cp_version_query [OF w j _ x v] show ?thesis
    by (simp add: maven_ok_def start_def note_call_def)
qed

lemma host_input_exists:
  "path_exists (host a mvn jh v oc) (world \<lparr>world = st, printed = ls, calls = cs\<rparr>) ''scan.spz''
     = Inr True"
  by simp

lemma host_mkdir_new:
  "path_mkdir (host a mvn jh v oc) (world \<lparr>world = [], printed = ls, calls = cs\<rparr>) ''out'' True True
     = (None, [''out''])"
  by (simp add: host_def)

lemma host_mkdir_on_file:
  "path_mkdir (host a mvn jh v oc) (world \<lparr>world = [], printed = ls, calls = cs\<rparr>) ''scan.spz'' True True
     = (Some (OtherException (''[Errno 17] File exists: '' @ [quote_char] @ ''scan.spz'' @ [quote_char])), [])"
  by (simp add: host_def)

section \<open>Properties of the wrapper\<close>

text \<open>
  C1. On the concrete host, with every prerequisite passing and the input file present,
  an output directory path that names an existing regular file makes
  \<^verbatim>\<open>Path.mkdir(parents=True, exist_ok=True)\<close> raise \<^verbatim>\<open>FileExistsError\<close>. The call stands before
  the \<^verbatim>\<open>try\<close> of \<^verbatim>\<open>convert\<close>, so the exception leaves \<^verbatim>\<open>convert\<close>, which returns no
  boolean and prints nothing, and \<^verbatim>\<open>main\<close>, which has no handler, ends with it uncaught.
\<close>

theorem convert_mkdir_error_escapes:
  "convert (good_host maven_ok) (SPZConverter_init (good_host maven_ok) None)
     ''scan.spz'' ''scan.spz'' ''content.glb'' (start []) =
     (Inl (OtherException (''[Errno 17] File exists: '' @ [quote_char] @ ''scan.spz'' @ [quote_char])),
      \<lparr>world = [], printed = [],
       calls = [Which ''mvn'', Environ_get ''JAVA_HOME'', Path_exists ''/opt/jdk/bin/java'',
                Subprocess_run [''mvn'', ''--version''] None 30,
                Path_exists ''scan.spz'', Path_mkdir ''scan.spz'' True True]\<rparr>)
   \<and> fst (main (good_host maven_ok)
            \<lparr>cl_gui = False, cl_input_file = Some ''scan.spz'', cl_output_dir = Some ''scan.spz'',
             cl_content_name = None, cl_project_root = None\<rparr> (start [])) =
       Uncaught (OtherException (''[Errno 17] File exists: '' @ [quote_char] @ ''scan.spz'' @ [quote_char]))"
proof -
  have conv: "convert (good_host maven_ok) (SPZConverter_init (good_host maven_ok) None)
     ''scan.spz'' ''scan.spz'' ''content.glb'' (start []) =
     (Inl (OtherException (''[Errno 17] File exists: '' @ [quote_char] @ ''scan.spz'' @ [quote_char])),
      \<lparr>world = [], printed = [],
       calls = [Which ''mvn'', Environ_get ''JAVA_HOME'', Path_exists ''/opt/jdk/bin/java'',
                Subprocess_run [''mvn'', ''--version''] None 30,
                Path_exists ''scan.spz'', Path_mkdir ''scan.spz'' True True]\<rparr>)"
    unfolding good_host_def
    using convert_mkdir_raises [OF host_prereq host_input_exists host_mkdir_on_file]
    by (simp add: note_call_def)
  then show ?thesis
    by (simp add: main_def parse_args_def)
qed




text \<open>
  C5. \<^verbatim>\<open>check_prerequisites\<close> asks, in this order: \<^verbatim>\<open>shutil.which\<close> for the Maven
  executable, \<^verbatim>\<open>JAVA_HOME\<close>, the existence of the Java executable under it, and the
  version query with the timeout 30. It returns at the first check that fails, with that
  check's message and without making the later calls, whatever they would have answered;
  it reports success only after the version query exits with 0. Should the existence test
  raise instead of answering, the exception leaves the method and no later check runs.
\<close>

theorem check_prerequisites_first_failure:
  assumes "found = shutil_which P (world m) (mvn_cmd P)"
      and "java_home = environ_get P (world m) ''JAVA_HOME''"
      and "version = subprocess_run P (world m) [mvn_cmd P, ''--version''] None 30"
  shows "(\<not> truthy found \<longrightarrow>
            check_prerequisites P m =
              (Inr (False, ''Maven not found in PATH. Please install Maven and add it to PATH.''),
               m\<lparr>calls := calls m @ [Which (mvn_cmd P)]\<rparr>))
       \<and> (truthy found \<and> \<not> truthy java_home \<longrightarrow>
            check_prerequisites P m =
              (Inr (False, ''JAVA_HOME environment variable is not set. Please set JAVA_HOME to your JDK installation.''),
               m\<lparr>calls := calls m @ [Which (mvn_cmd P), Environ_get ''JAVA_HOME'']\<rparr>))
       \<and> (\<forall>jh. truthy found \<and> java_home = Some jh \<and> jh \<noteq> []
                \<and> path_exists P (world m) (java_exe P jh) = Inr False \<longrightarrow>
            check_prerequisites P m =
              (Inr (False, ''Java executable not found at '' @ java_exe P jh @ ''. Please check JAVA_HOME setting.''),
               m\<lparr>calls := calls m @ [Which (mvn_cmd P), Environ_get ''JAVA_HOME'',
                                       Path_exists (java_exe P jh)]\<rparr>))
       \<and> (\<forall>jh res st'. truthy found \<and> java_home = Some jh \<and> jh \<noteq> []
                \<and> path_exists P (world m) (java_exe P jh) = Inr True \<and> version = (res, st') \<longrightarrow>
            check_prerequisites P m =
              (Inr (case res of
                     Raised e status \<Rightarrow> (False, ''Maven test failed: '' @ exc_str e)
                   | Completed r \<Rightarrow>
                       if returncode r \<noteq> 0 then (False, ''Maven test failed: '' @ stderr r)
                       else (True, [])),
               m\<lparr>world := st',
                 calls := calls m @ [Which (mvn_cmd P), Environ_get ''JAVA_HOME'',
                                     Path_exists (java_exe P jh),
                                     Subprocess_run [mvn_cmd P, ''--version''] None 30]\<rparr>))
       \<and> (\<forall>jh e. truthy found \<and> java_home = Some jh \<and> jh \<noteq> []
                \<and> path_exists P (world m) (java_exe P jh) = Inl e \<longrightarrow>
            check_prerequisites P m =
              (Inl e,
               m\<lparr>calls := calls m @ [Which (mvn_cmd P), Environ_get ''JAVA_HOME'',
                                       Path_exists (java_exe P jh)]\<rparr>))"
proof (intro conjI allI impI)
  assume "\<not> truthy found"
  then show "check_prerequisites P m =
              (Inr (False, ''Maven not found in PATH. Please install Maven and add it to PATH.''),
               m\<lparr>calls := calls m @ [Which (mvn_cmd P)]\<rparr>)"
    using cp_maven_missing [of P m] assms(1) by (simp add: note_call_def)
next
  assume "truthy found \<and> \<not> truthy java_home"
  then show "check_prerequisites P m =
              (Inr (False, ''JAVA_HOME environment variable is not set. Please set JAVA_HOME to your JDK installation.''),
               m\<lparr>calls := calls m @ [Which (mvn_cmd P), Environ_get ''JAVA_HOME'']\<rparr>)"
    using cp_java_home_unset [of P m] assms(1,2) by (simp add: note_call_def)
next
  fix jh
  assume "truthy found \<and> java_home = Some jh \<and> jh \<noteq> []
            \<and> path_exists P (world m) (java_exe P jh) = Inr False"
  then show "check_prerequisites P m =
              (Inr (False, ''Java executable not found at '' @ java_exe P jh @ ''. Please check JAVA_HOME setting.''),
               m\<lparr>calls := calls m @ [Which (mvn_cmd P), Environ_get ''JAVA_HOME'',
                                       Path_exists (java_exe P jh)]\<rparr>)"
    using cp_java_exe_missing [of P m jh] assms(1,2) by (simp add: note_call_def)
next
  fix jh res st'
  assume "truthy found \<and> java_home = Some jh \<and> jh \<noteq> []
            \<and> path_exists P (world m) (java_exe P jh) = Inr True \<and> version = (res, st')"
  then show "check_prerequisites P m =
              (Inr (case res of
                     Raised e status \<Rightarrow> (False, ''Maven test failed: '' @ exc_str e)
                   | Completed r \<Rightarrow>
                       if returncode r \<noteq> 0 then (False, ''Maven test failed: '' @ stderr r)
                       else (True, [])),
               m\<lparr>world := st',
                 calls := calls m @ [Which (mvn_cmd P), Environ_get ''JAVA_HOME'',
                                     Path_exists (java_exe P jh),
                                     Subprocess_run [mvn_cmd P, ''--version''] None 30]\<rparr>)"
    using cp_version_query [of P m jh res st'] assms by (simp add: note_call_def)
next
  fix jh e
  assume "truthy found \<and> java_home = Some jh \<and> jh \<noteq> []
            \<and> path_exists P (world m) (java_exe P jh) = Inl e"
  then show "check_prerequisites P m =
              (Inl e,
               m\<lparr>calls := calls m @ [Which (mvn_cmd P), Environ_get ''JAVA_HOME'',
                                       Path_exists (java_exe P jh)]\<rparr>)"
    using cp_java_exe_raises [of P m jh e] assms(1,2) by (simp add: note_call_def)
qed



theorem check_prerequisites_first_failure_witness:
  "check_prerequisites (host False None None (Raised (TimeoutExpired ''timed out after 30 seconds'') None) maven_ok) (start []) =
     (Inr (False, ''Maven not found in PATH. Please install Maven and add it to PATH.''),
      \<lparr>world = [], printed = [], calls = [Which ''mvn'']\<rparr>)
   \<and> check_prerequisites (host False (Some ''/usr/bin/mvn'') None (Raised (TimeoutExpired ''timed out after 30 seconds'') None) maven_ok) (start []) =
     (Inr (False, ''JAVA_HOME environment variable is not set. Please set JAVA_HOME to your JDK installation.''),
      \<lparr>world = [], printed = [], calls = [Which ''mvn'', Environ_get ''JAVA_HOME'']\<rparr>)
   \<and> check_prerequisites (host False (Some ''/usr/bin/mvn'') (Some ''/missing'') (Raised (TimeoutExpired ''timed out after 30 seconds'') None) maven_ok) (start []) =
     (Inr (False, ''Java executable not found at /missing/bin/java. Please check JAVA_HOME setting.''),
      \<lparr>world = [], printed = [], calls = [Which ''mvn'', Environ_get ''JAVA_HOME'', Path_exists ''/missing/bin/java'']\<rparr>)
   \<and> check_prerequisites (host False (Some ''/usr/bin/mvn'') (Some ''/opt/jdk'') (Raised (TimeoutExpired ''timed out after 30 seconds'') None) maven_ok) (start []) =
     (Inr (False, ''Maven test failed: timed out after 30 seconds''),
      \<lparr>world = [], printed = [], calls = [Which ''mvn'', Environ_get ''JAVA_HOME'', Path_exists ''/opt/jdk/bin/java'',
                Subprocess_run [''mvn'', ''--version''] None 30]\<rparr>)
   \<and> check_prerequisites (host False (Some ''/usr/bin/mvn'') (Some ''/opt/jdk'') maven_broken maven_ok) (start []) =
     (Inr (False, ''Maven test failed: [ERROR] No plugin found''),
      \<lparr>world = [], printed = [], calls = [Which ''mvn'', Environ_get ''JAVA_HOME'', Path_exists ''/opt/jdk/bin/java'',
                Subprocess_run [''mvn'', ''--version''] None 30]\<rparr>)
   \<and> check_prerequisites (host False (Some ''/usr/bin/mvn'') (Some ''/opt/jdk'') maven_ok maven_ok) (start []) =
     (Inr (True, []),
      \<lparr>world = [], printed = [], calls = [Which ''mvn'', Environ_get ''JAVA_HOME'', Path_exists ''/opt/jdk/bin/java'',
                Subprocess_run [''mvn'', ''--version''] None 30]\<rparr>)"
proof (intro conjI)
  have pre: "\<not> truthy (shutil_which (host False None None (Raised (TimeoutExpired ''timed out after 30 seconds'') None) maven_ok) (world (start [])) (mvn_cmd (host False None None (Raised (TimeoutExpired ''timed out after 30 seconds'') None) maven_ok)))"
    by (simp add: truthy_def start_def)
  from check_prerequisites_first_failure [OF refl refl refl, of "host False None None (Raised (TimeoutExpired ''timed out after 30 seconds'') None) maven_ok" "start []",
         THEN conjunct1, rule_format, OF pre]
  show "check_prerequisites (host False None None (Raised (TimeoutExpired ''timed out after 30 seconds'') None) maven_ok) (start []) =
     (Inr (False, ''Maven not found in PATH. Please install Maven and add it to PATH.''),
      \<lparr>world = [], printed = [], calls = [Which ''mvn'']\<rparr>)"
    by (simp add: start_def)
next
  have pre: "truthy (shutil_which (host False (Some ''/usr/bin/mvn'') None (Raised (TimeoutExpired ''timed out after 30 seconds'') None) maven_ok) (world (start [])) (mvn_cmd (host False (Some ''/usr/bin/mvn'') None (Raised (TimeoutExpired ''timed out after 30 seconds'') None) maven_ok)))
      \<and> \<not> truthy (environ_get (host False (Some ''/usr/bin/mvn'') None (Raised (TimeoutExpired ''timed out after 30 seconds'') None) maven_ok) (world (start [])) ''JAVA_HOME'')"
    by (simp add: truthy_def start_def)
  from check_prerequisites_first_failure [OF refl refl refl, of "host False (Some ''/usr/bin/mvn'') None (Raised (TimeoutExpired ''timed out after 30 seconds'') None) maven_ok" "start []",
         THEN conjunct2, THEN conjunct1, rule_format, OF pre]
  show "check_prerequisites (host False (Some ''/usr/bin/mvn'') None (Raised (TimeoutExpired ''timed out after 30 seconds'') None) maven_ok) (start []) =
     (Inr (False, ''JAVA_HOME environment variable is not set. Please set JAVA_HOME to your JDK installation.''),
      \<lparr>world = [], printed = [], calls = [Which ''mvn'', Environ_get ''JAVA_HOME'']\<rparr>)"
    by (simp add: start_def)
next
  have pre: "truthy (shutil_which (host False (Some ''/usr/bin/mvn'') (Some ''/missing'') (Raised (TimeoutExpired ''timed out after 30 seconds'') None) maven_ok) (world (start [])) (mvn_cmd (host False (Some ''/usr/bin/mvn'') (Some ''/missing'') (Raised (TimeoutExpired ''timed out after 30 seconds'') None) maven_ok)))
      \<and> environ_get (host False (Some ''/usr/bin/mvn'') (Some ''/missing'') (Raised (TimeoutExpired ''timed out after 30 seconds'') None) maven_ok) (world (start [])) ''JAVA_HOME'' = Some ''/missing'' \<and> ''/missing'' \<noteq> []
      \<and> path_exists (host False (Some ''/usr/bin/mvn'') (Some ''/missing'') (Raised (TimeoutExpired ''timed out after 30 seconds'') None) maven_ok) (world (start [])) (java_exe (host False (Some ''/usr/bin/mvn'') (Some ''/missing'') (Raised (TimeoutExpired ''timed out after 30 seconds'') None) maven_ok) ''/missing'') = Inr False"
    by (simp add: truthy_def start_def)
  from check_prerequisites_first_failure [OF refl refl refl, of "host False (Some ''/usr/bin/mvn'') (Some ''/missing'') (Raised (TimeoutExpired ''timed out after 30 seconds'') None) maven_ok" "start []",
         THEN conjunct2, THEN conjunct2, THEN conjunct1, rule_format, OF pre]
  show "check_prerequisites (host False (Some ''/usr/bin/mvn'') (Some ''/missing'') (Raised (TimeoutExpired ''timed out after 30 seconds'') None) maven_ok) (start []) =
     (Inr (False, ''Java executable not found at /missing/bin/java. Please check JAVA_HOME setting.''),
      \<lparr>world = [], printed = [], calls = [Which ''mvn'', Environ_get ''JAVA_HOME'', Path_exists ''/missing/bin/java'']\<rparr>)"
    by (simp add: start_def)
next
  have pre: "truthy (shutil_which (host False (Some ''/usr/bin/mvn'') (Some ''/opt/jdk'') (Raised (TimeoutExpired ''timed out after 30 seconds'') None) maven_ok) (world (start [])) (mvn_cmd (host False (Some ''/usr/bin/mvn'') (Some ''/opt/jdk'') (Raised (TimeoutExpired ''timed out after 30 seconds'') None) maven_ok)))
      \<and> environ_get (host False (Some ''/usr/bin/mvn'') (Some ''/opt/jdk'') (Raised (TimeoutExpired ''timed out after 30 seconds'') None) maven_ok) (world (start [])) ''JAVA_HOME'' = Some ''/opt/jdk'' \<and> ''/opt/jdk'' \<noteq> []
      \<and> path_exists (host False (Some ''/usr/bin/mvn'') (Some ''/opt/jdk'') (Raised (TimeoutExpired ''timed out after 30 seconds'') None) maven_ok) (world (start [])) (java_exe (host False (Some ''/usr/bin/mvn'') (Some ''/opt/jdk'') (Raised (TimeoutExpired ''timed out after 30 seconds'') None) maven_ok) ''/opt/jdk'') = Inr True
      \<and> subprocess_run (host False (Some ''/usr/bin/mvn'') (Some ''/opt/jdk'') (Raised (TimeoutExpired ''timed out after 30 seconds'') None) maven_ok) (world (start [])) [mvn_cmd (host False (Some ''/usr/bin/mvn'') (Some ''/opt/jdk'') (Raised (TimeoutExpired ''timed out after 30 seconds'') None) maven_ok), ''--version''] None 30 = ((Raised (TimeoutExpired ''timed out after 30 seconds'') None), [])"
    by (simp add: truthy_def start_def)
  from check_prerequisites_first_failure [OF refl refl refl, of "host False (Some ''/usr/bin/mvn'') (Some ''/opt/jdk'') (Raised (TimeoutExpired ''timed out after 30 seconds'') None) maven_ok" "start []",
         THEN conjunct2, THEN conjunct2, THEN conjunct2, THEN conjunct1, rule_format, OF pre]
  show "check_prerequisites (host False (Some ''/usr/bin/mvn'') (Some ''/opt/jdk'') (Raised (TimeoutExpired ''timed out after 30 seconds'') None) maven_ok) (start []) =
     (Inr (False, ''Maven test failed: timed out after 30 seconds''),
      \<lparr>world = [], printed = [], calls = [Which ''mvn'', Environ_get ''JAVA_HOME'', Path_exists ''/opt/jdk/bin/java'',
                Subprocess_run [''mvn'', ''--version''] None 30]\<rparr>)"
    by (simp add: start_def)
next
  have pre: "truthy (shutil_which (host False (Some ''/usr/bin/mvn'') (Some ''/opt/jdk'') maven_broken maven_ok) (world (start [])) (mvn_cmd (host False (Some ''/usr/bin/mvn'') (Some ''/opt/jdk'') maven_broken maven_ok)))
      \<and> environ_get (host False (Some ''/usr/bin/mvn'') (Some ''/opt/jdk'') maven_broken maven_ok) (world (start [])) ''JAVA_HOME'' = Some ''/opt/jdk'' \<and> ''/opt/jdk'' \<noteq> []
      \<and> path_exists (host False (Some ''/usr/bin/mvn'') (Some ''/opt/jdk'') maven_broken maven_ok) (world (start [])) (java_exe (host False (Some ''/usr/bin/mvn'') (Some ''/opt/jdk'') maven_broken maven_ok) ''/opt/jdk'') = Inr True
      \<and> subprocess_run (host False (Some ''/usr/bin/mvn'') (Some ''/opt/jdk'') maven_broken maven_ok) (world (start [])) [mvn_cmd (host False (Some ''/usr/bin/mvn'') (Some ''/opt/jdk'') maven_broken maven_ok), ''--version''] None 30 = (maven_broken, [])"
    by (simp add: truthy_def start_def)
  from check_prerequisites_first_failure [OF refl refl refl, of "host False (Some ''/usr/bin/mvn'') (Some ''/opt/jdk'') maven_broken maven_ok" "start []",
         THEN conjunct2, THEN conjunct2, THEN conjunct2, THEN conjunct1, rule_format, OF pre]
  show "check_prerequisites (host False (Some ''/usr/bin/mvn'') (Some ''/opt/jdk'') maven_broken maven_ok) (start []) =
     (Inr (False, ''Maven test failed: [ERROR] No plugin found''),
      \<lparr>world = [], printed = [], calls = [Which ''mvn'', Environ_get ''JAVA_HOME'', Path_exists ''/opt/jdk/bin/java'',
                Subprocess_run [''mvn'', ''--version''] None 30]\<rparr>)"
    by (simp add: start_def maven_broken_def)
next
  have pre: "truthy (shutil_which (host False (Some ''/usr/bin/mvn'') (Some ''/opt/jdk'') maven_ok maven_ok) (world (start [])) (mvn_cmd (host False (Some ''/usr/bin/mvn'') (Some ''/opt/jdk'') maven_ok maven_ok)))
      \<and> environ_get (host False (Some ''/usr/bin/mvn'') (Some ''/opt/jdk'') maven_ok maven_ok) (world (start [])) ''JAVA_HOME'' = Some ''/opt/jdk'' \<and> ''/opt/jdk'' \<noteq> []
      \<and> path_exists (host False (Some ''/usr/bin/mvn'') (Some ''/opt/jdk'') maven_ok maven_ok) (world (start [])) (java_exe (host False (Some ''/usr/bin/mvn'') (Some ''/opt/jdk'') maven_ok maven_ok) ''/opt/jdk'') = Inr True
      \<and> subprocess_run (host False (Some ''/usr/bin/mvn'') (Some ''/opt/jdk'') maven_ok maven_ok) (world (start [])) [mvn_cmd (host False (Some ''/usr/bin/mvn'') (Some ''/opt/jdk'') maven_ok maven_ok), ''--version''] None 30 = (maven_ok, [])"
    by (simp add: truthy_def start_def)
  from check_prerequisites_first_failure [OF refl refl refl, of "host False (Some ''/usr/bin/mvn'') (Some ''/opt/jdk'') maven_ok maven_ok" "start []",
         THEN conjunct2, THEN conjunct2, THEN conjunct2, THEN conjunct1, rule_format, OF pre]
  show "check_prerequisites (host False (Some ''/usr/bin/mvn'') (Some ''/opt/jdk'') maven_ok maven_ok) (start []) =
     (Inr (True, []),
      \<lparr>world = [], printed = [], calls = [Which ''mvn'', Environ_get ''JAVA_HOME'', Path_exists ''/opt/jdk/bin/java'',
                Subprocess_run [''mvn'', ''--version''] None 30]\<rparr>)"
    by (simp add: start_def maven_ok_def)
qed


text \<open>
  C10. In CLI mode (no \<^verbatim>\<open>--gui\<close>, both positionals given and non-empty), a command line
  without \<^verbatim>\<open>--content-name\<close> makes \<^verbatim>\<open>main\<close> call \<^verbatim>\<open>convert\<close> with \<^verbatim>\<open>content.glb\<close> and exit
  with 0 or 1 after its result. On a run that reaches the launch, completes with exit
  status 0 and can print its lines, the name is the last word of the command's argument
  string and the last line printed is the output directory joined with \<^verbatim>\<open>content.glb\<close>.
\<close>

theorem main_default_content_name:
  assumes "\<not> cl_gui cl"
      and "cl_input_file cl = Some inp" and "inp \<noteq> []"
      and "cl_output_dir cl = Some out" and "out \<noteq> []"
      and "cl_content_name cl = None"
      and "check_prerequisites P m = (Inr (True, msg), m1)"
      and "path_exists P (world m1) inp = Inr True"
      and "path_mkdir P (world m1) out True True = (None, st2)"
      and "cmd = [mvn_cmd P, ''exec:java'',
                  ''-Dexec.mainClass=de.javagl.jspz.examples.SpzToTileset'',
                  ''-Dexec.args='' @ path_resolve P st2 inp @ '' '' @ path_resolve P st2 out @ '' content.glb'',
                  ''-pl'', ''jspz-main'', ''-q'']"
      and "subprocess_run P st2 cmd (Some (project_root (SPZConverter_init P (cl_project_root cl)))) 300
             = (Completed r, st3)"
      and "returncode r = 0"
      and "lines = [''Converting '' @ inp @ '' to '' @ out @ ''...'',
                    ''Running: '' @ str_join '' '' cmd,
                    check_mark @ '' Conversion completed successfully!'',
                    ''  Output files:'',
                    ''    - '' @ path_join P out ''tileset.json'',
                    ''    - '' @ path_join P out ''content.glb'']"
      and "\<forall>s \<in> set lines. print_error P s = None"
  shows "content_name (parse_args cl) = ''content.glb''
       \<and> main P cl m =
           (case convert P (SPZConverter_init P (cl_project_root cl)) inp out ''content.glb'' m of
              (Inr success, m') \<Rightarrow> (Exit (if success then 0 else 1), m')
            | (Inl e, m') \<Rightarrow> (Uncaught e, m'))
       \<and> fst (main P cl m) = Exit 0
       \<and> last (calls (snd (main P cl m))) =
           Subprocess_run cmd (Some (project_root (SPZConverter_init P (cl_project_root cl)))) 300
       \<and> last (printed (snd (main P cl m))) = ''    - '' @ path_join P out ''content.glb''"
proof -
  let ?self = "SPZConverter_init P (cl_project_root cl)"
  have name: "content_name (parse_args cl) = ''content.glb''"
    using assms(6) by (simp add: parse_args_def)
  have unfold: "main P cl m =
           (case convert P ?self inp out ''content.glb'' m of
              (Inr success, m') \<Rightarrow> (Exit (if success then 0 else 1), m')
            | (Inl e, m') \<Rightarrow> (Uncaught e, m'))"
    using assms(1-6) by (simp add: main_def parse_args_def)
  have cmd: "cmd = build_cmd P ?self (path_resolve P st2 inp) (path_resolve P st2 out) ''content.glb''"
    using assms(10) by (simp add: build_cmd_def SPZConverter_init_def)
  have shape: "lines = [''Converting '' @ inp @ '' to '' @ out @ ''...'',
                    ''Running: '' @ str_join '' '' cmd] @
                 (if returncode r = 0 then
                    [check_mark @ '' Conversion completed successfully!'',
                     ''  Output files:'',
                     ''    - '' @ path_join P out ''tileset.json'',
                     ''    - '' @ path_join P out ''content.glb'']
                  else
                    [cross_mark @ '' Conversion failed!'',
                     ''Return code: '' @ str_int (returncode r)] @
                    (if stdout r \<noteq> [] then [''Standard output: '' @ stdout r] else []) @
                    (if stderr r \<noteq> [] then [''Error output: '' @ stderr r] else []))"
    using assms(12,13) by simp
  have conv: "convert P ?self inp out ''content.glb'' m =
           (Inr True,
            \<lparr>world = st3, printed = printed m1 @ lines,
             calls = calls m1 @
               [Path_exists inp, Path_mkdir out True True, Path_resolve inp, Path_resolve out,
                Subprocess_run cmd (Some (project_root ?self)) 300]\<rparr>)"
    using convert_completed [OF assms(7-9) cmd assms(11) refl shape assms(14)] assms(12)
    by simp
  have "last (printed m1 @ lines) = ''    - '' @ path_join P out ''content.glb''"
    using assms(13) by simp
  with name unfold conv show ?thesis by simp
qed

theorem main_default_content_name_witness:
  "main (good_host maven_ok)
     \<lparr>cl_gui = False, cl_input_file = Some ''scan.spz'', cl_output_dir = Some ''out'',
      cl_content_name = None, cl_project_root = None\<rparr> (start []) =
   (Exit 0,
    \<lparr>world = [''out''],
     printed =
       [''Converting scan.spz to out...'',
        ''Running: mvn exec:java -Dexec.mainClass=de.javagl.jspz.examples.SpzToTileset -Dexec.args=/work/scan.spz /work/out content.glb -pl jspz-main -q'',
        check_mark @ '' Conversion completed successfully!'',
        ''  Output files:'',
        ''    - out/tileset.json'',
        ''    - out/content.glb''],
     calls =
       [Which ''mvn'', Environ_get ''JAVA_HOME'', Path_exists ''/opt/jdk/bin/java'',
        Subprocess_run [''mvn'', ''--version''] None 30,
        Path_exists ''scan.spz'', Path_mkdir ''out'' True True,
        Path_resolve ''scan.spz'', Path_resolve ''out'',
        Subprocess_run
          [''mvn'', ''exec:java'', ''-Dexec.mainClass=de.javagl.jspz.examples.SpzToTileset'',
           ''-Dexec.args=/work/scan.spz /work/out content.glb'', ''-pl'', ''jspz-main'', ''-q'']
          (Some ''/srv/jspz'') 300]\<rparr>)"
proof -
  let ?ok = "Completed \<lparr>returncode = 0, stdout = ''Apache Maven 3.9.6'', stderr = []\<rparr>"
  let ?H = "host False (Some ''/usr/bin/mvn'') (Some ''/opt/jdk'') maven_ok ?ok"
  let ?cl = "\<lparr>cl_gui = False, cl_input_file = Some ''scan.spz'', cl_output_dir = Some ''out'',
      cl_content_name = None, cl_project_root = None\<rparr>"
  let ?self = "SPZConverter_init ?H None"
  have c1: "\<not> cl_gui ?cl" and c2: "cl_input_file ?cl = Some ''scan.spz''"
    and c3: "''scan.spz'' \<noteq> []" and c4: "cl_output_dir ?cl = Some ''out''"
    and c5: "''out'' \<noteq> []" and c6: "cl_content_name ?cl = None"
    by simp_all
  have run: "subprocess_run ?H [''out'']
      [mvn_cmd ?H, ''exec:java'', ''-Dexec.mainClass=de.javagl.jspz.examples.SpzToTileset'',
       ''-Dexec.args='' @ path_resolve ?H [''out''] ''scan.spz'' @ '' ''
          @ path_resolve ?H [''out''] ''out'' @ '' content.glb'',
       ''-pl'', ''jspz-main'', ''-q'']
      (Some (project_root (SPZConverter_init ?H (cl_project_root ?cl)))) 300 = (?ok, [''out''])"
    by simp
  have rc: "returncode \<lparr>returncode = 0, stdout = ''Apache Maven 3.9.6'', stderr = []\<rparr> = 0"
    by simp
  have pr: "\<forall>s \<in> set ls. print_error ?H s = None" for ls
    by simp
  note t = main_default_content_name
    [OF c1 c2 c3 c4 c5 c6 host_prereq host_input_exists host_mkdir_new refl run rc refl pr]
  have run': "subprocess_run ?H [''out'']
      (build_cmd ?H ?self (path_resolve ?H [''out''] ''scan.spz'')
         (path_resolve ?H [''out''] ''out'') ''content.glb'')
      (Some (project_root ?self)) 300 = (?ok, [''out''])"
    by simp
  have conv: "convert ?H ?self ''scan.spz'' ''out'' ''content.glb'' (start []) =
   (Inr True,
    \<lparr>world = [''out''],
     printed =
       [''Converting scan.spz to out...'',
        ''Running: mvn exec:java -Dexec.mainClass=de.javagl.jspz.examples.SpzToTileset -Dexec.args=/work/scan.spz /work/out content.glb -pl jspz-main -q'',
        check_mark @ '' Conversion completed successfully!'',
        ''  Output files:'',
        ''    - out/tileset.json'',
        ''    - out/content.glb''],
     calls =
       [Which ''mvn'', Environ_get ''JAVA_HOME'', Path_exists ''/opt/jdk/bin/java'',
        Subprocess_run [''mvn'', ''--version''] None 30,
        Path_exists ''scan.spz'', Path_mkdir ''out'' True True,
        Path_resolve ''scan.spz'', Path_resolve ''out'',
        Subprocess_run
          [''mvn'', ''exec:java'', ''-Dexec.mainClass=de.javagl.jspz.examples.SpzToTileset'',
           ''-Dexec.args=/work/scan.spz /work/out content.glb'', ''-pl'', ''jspz-main'', ''-q'']
          (Some ''/srv/jspz'') 300]\<rparr>)"
    using convert_completed
      [OF host_prereq host_input_exists host_mkdir_new refl run' refl refl pr]
    by (simp add: build_cmd_def SPZConverter_init_def)
  from t [THEN conjunct2, THEN conjunct1] conv show ?thesis
    by (simp add: good_host_def maven_ok_def)
qed


section \<open>When every print and every existence test returns\<close>

lemma prints_return_then_return:
  "prints_return P \<Longrightarrow> print_then_return P ss b m = (Inr b, m\<lparr>printed := printed m @ ss\<rparr>)"
  by (simp add: prints_return_def print_then_return_ok)

lemma prints_return_except:
  "prints_return P \<Longrightarrow> fst (convert_except P e m) = Inr False"
  by (cases e) (simp_all add: prints_return_then_return)

lemma cp_world_keeps_dir:
  assumes "run_keeps_dirs P" and "path_is_dir P (world m) p"
  shows "path_is_dir P (world (snd (check_prerequisites P m))) p"
proof -
  have kept: "path_is_dir P (snd (subprocess_run P (world m) cmd cwd t)) p" for cmd cwd t
    using assms by (simp add: run_keeps_dirs_def)
  show ?thesis
    using assms(2) kept [of "[mvn_cmd P, ''--version'']" None 30]
    by (auto simp add: check_prerequisites_def platform_steps
          split: prod.splits option.splits sum.splits run_outcome.splits)
qed

lemma cp_returns:
  assumes "exists_returns P inp"
  shows "\<exists>ok msg. fst (check_prerequisites P m) = Inr (ok, msg)"
proof -
  have "\<exists>b. path_exists P (world m) (java_exe P jh) = Inr b"
    if "environ_get P (world m) ''JAVA_HOME'' = Some jh" for jh
    using assms that by (simp add: exists_returns_def)
  then have "path_exists P (world m) (java_exe P jh) \<noteq> Inl e"
    if "environ_get P (world m) ''JAVA_HOME'' = Some jh" for jh e
    using that by (metis sum.distinct(1))
  then show ?thesis
    by (auto simp add: check_prerequisites_def platform_steps
          split: prod.splits option.splits sum.splits run_outcome.splits)
qed

lemma convert_returns_on_existing_dir:
  assumes "mkdir_exist_ok P" and "prints_return P" and "exists_returns P inp"
      and "check_prerequisites P m = (Inr (ok, msg), m1)"
      and "path_is_dir P (world m1) out"
  shows "\<exists>b. fst (convert P self inp out name m) = Inr b"
proof -
  obtain present where ex: "path_exists P (world m1) inp = Inr present"
    using assms(3) by (auto simp add: exists_returns_def)
  show ?thesis
  proof (cases "ok \<and> present")
    case False
    with assms(4) ex show ?thesis
      by (auto simp add: convert_def platform_steps prints_return_then_return [OF assms(2)])
  next
    case True
    from assms(1,5) have mk: "path_mkdir P (world m1) out True True = (None, world m1)"
      by (simp add: mkdir_exist_ok_def)
    obtain res st3 where run:
      "subprocess_run P (world m1)
         (build_cmd P self (path_resolve P (world m1) inp) (path_resolve P (world m1) out) name)
         (Some (project_root self)) 300 = (res, st3)"
      by (cases "subprocess_run P (world m1)
         (build_cmd P self (path_resolve P (world m1) inp) (path_resolve P (world m1) out) name)
         (Some (project_root self)) 300") blast
    from True assms(4) have cp: "check_prerequisites P m = (Inr (True, msg), m1)" by simp
    from True ex have ex': "path_exists P (world m1) inp = Inr True" by simp
    have pr: "print_error P s = None" for s
      using assms(2) by (simp add: prints_return_def)
    from convert_launched [OF cp ex' mk refl pr pr run refl]
    have "fst (convert P self inp out name m) =
            (case res of Completed r \<Rightarrow> Inr (returncode r = 0) | Raised e status \<Rightarrow> Inr False)"
      by (cases res)
         (simp_all add: prints_return_then_return [OF assms(2)] prints_return_except [OF assms(2)])
    then show ?thesis
      by (cases res) auto
  qed
qed

lemma convert_leaves_dir:
  assumes "mkdir_creates P" and "run_keeps_dirs P" and "prints_return P"
      and "check_prerequisites P m = (Inr (True, msg), m1)"
      and "path_exists P (world m1) inp = Inr True"
      and "fst (convert P self inp out name m) = Inr b"
  shows "path_is_dir P (world (snd (convert P self inp out name m))) out"
proof -
  obtain r st2 where mk: "path_mkdir P (world m1) out True True = (r, st2)"
    by (cases "path_mkdir P (world m1) out True True") blast
  show ?thesis
  proof (cases r)
    case (Some e)
    with convert_mkdir_raises [OF assms(4,5)] mk assms(6) show ?thesis by simp
  next
    case None
    with mk have mk': "path_mkdir P (world m1) out True True = (None, st2)" by simp
    with assms(1) have dir: "path_is_dir P st2 out"
      by (auto simp add: mkdir_creates_def)
    obtain res st3 where run:
      "subprocess_run P st2
         (build_cmd P self (path_resolve P st2 inp) (path_resolve P st2 out) name)
         (Some (project_root self)) 300 = (res, st3)"
      by (cases "subprocess_run P st2
         (build_cmd P self (path_resolve P st2 inp) (path_resolve P st2 out) name)
         (Some (project_root self)) 300") blast
    from assms(2) dir have "path_is_dir P (snd (subprocess_run P st2
         (build_cmd P self (path_resolve P st2 inp) (path_resolve P st2 out) name)
         (Some (project_root self)) 300)) out"
      by (simp add: run_keeps_dirs_def)
    with run have kept: "path_is_dir P st3 out" by simp
    have pr: "print_error P s = None" for s
      using assms(3) by (simp add: prints_return_def)
    from convert_launched [OF assms(4,5) mk' refl pr pr run refl] kept
    show ?thesis
      by (cases res) (simp_all add: prints_return_then_return [OF assms(3)])
  qed
qed

lemma host_contract:
  "mkdir_exist_ok (host a mvn jh v oc)" "mkdir_creates (host a mvn jh v oc)"
  "run_keeps_dirs (host a mvn jh v oc)" "prints_return (host False mvn jh v oc)"
  by (auto simp add: mkdir_exist_ok_def mkdir_creates_def run_keeps_dirs_def prints_return_def
        host_def split: if_splits)

lemma host_exists_returns:
  "exists_returns (host a mvn (Some ''/opt/jdk'') v oc) ''scan.spz''"
  by (auto simp add: exists_returns_def)





text \<open>
  C3, as amended. When the prerequisites pass, the input exists, the output directory could
  be ensured, \<^verbatim>\<open>subprocess.run\<close> returns a completed process with exit status 0, and
  standard output takes the six lines, \<^verbatim>\<open>convert\<close> returns \<^verbatim>\<open>True\<close> and prints, after the two
  progress lines, the success line, the heading and the two artifact paths: the output
  directory joined, as \<^verbatim>\<open>pathlib\<close> joins, with \<^verbatim>\<open>tileset.json\<close> and with the content file
  name. The content file name is any string, \<^verbatim>\<open>content.glb\<close> (the default of the
  parameter) included.
\<close>

theorem convert_exit_zero_reports_outputs:
  assumes "check_prerequisites P m = (Inr (True, msg), m1)"
      and "path_exists P (world m1) inp = Inr True"
      and "path_mkdir P (world m1) out True True = (None, st2)"
      and "cmd = build_cmd P self (path_resolve P st2 inp) (path_resolve P st2 out) name"
      and "subprocess_run P st2 cmd (Some (project_root self)) 300 = (Completed r, st3)"
      and "returncode r = 0"
      and "lines = [''Converting '' @ inp @ '' to '' @ out @ ''...'',
                    ''Running: '' @ str_join '' '' cmd,
                    check_mark @ '' Conversion completed successfully!'',
                    ''  Output files:'',
                    ''    - '' @ path_join P out ''tileset.json'',
                    ''    - '' @ path_join P out name]"
      and "\<forall>s \<in> set lines. print_error P s = None"
  shows "fst (convert P self inp out name m) = Inr True
       \<and> printed (snd (convert P self inp out name m)) = printed m @ lines"
proof -
  have same: "printed m1 = printed m"
    using cp_pass_shape [OF assms(1)] by simp
  have shape: "lines = [''Converting '' @ inp @ '' to '' @ out @ ''...'',
                    ''Running: '' @ str_join '' '' cmd] @
                 (if returncode r = 0 then
                    [check_mark @ '' Conversion completed successfully!'',
                     ''  Output files:'',
                     ''    - '' @ path_join P out ''tileset.json'',
                     ''    - '' @ path_join P out name]
                  else
                    [cross_mark @ '' Conversion failed!'',
                     ''Return code: '' @ str_int (returncode r)] @
                    (if stdout r \<noteq> [] then [''Standard output: '' @ stdout r] else []) @
                    (if stderr r \<noteq> [] then [''Error output: '' @ stderr r] else []))"
    using assms(6,7) by simp
  from convert_completed [OF assms(1-5) refl shape assms(8)] assms(6) same
  show ?thesis by simp
qed

theorem convert_exit_zero_reports_outputs_witness:
  "fst (convert (good_host maven_ok) (SPZConverter_init (good_host maven_ok) None)
          ''scan.spz'' ''out'' ''content.glb'' (start [])) = Inr True
   \<and> printed (snd (convert (good_host maven_ok) (SPZConverter_init (good_host maven_ok) None)
          ''scan.spz'' ''out'' ''content.glb'' (start []))) =
       [''Converting scan.spz to out...'',
        ''Running: mvn exec:java -Dexec.mainClass=de.javagl.jspz.examples.SpzToTileset -Dexec.args=/work/scan.spz /work/out content.glb -pl jspz-main -q'',
        check_mark @ '' Conversion completed successfully!'',
        ''  Output files:'',
        ''    - out/tileset.json'',
        ''    - out/content.glb'']"
proof -
  let ?H = "host False (Some ''/usr/bin/mvn'') (Some ''/opt/jdk'') maven_ok maven_ok"
  let ?self = "SPZConverter_init ?H None"
  have pr: "\<forall>s \<in> set ls. print_error ?H s = None" for ls
    by simp
  have run: "subprocess_run ?H [''out'']
      (build_cmd ?H ?self (path_resolve ?H [''out''] ''scan.spz'')
         (path_resolve ?H [''out''] ''out'') ''content.glb'')
      (Some (project_root ?self)) 300 =
      (Completed \<lparr>returncode = 0, stdout = ''Apache Maven 3.9.6'', stderr = []\<rparr>, [''out''])"
    by (simp add: maven_ok_def)
  have rc: "returncode \<lparr>returncode = 0, stdout = ''Apache Maven 3.9.6'', stderr = []\<rparr> = 0"
    by simp
  show ?thesis
    unfolding good_host_def
    using convert_exit_zero_reports_outputs
      [OF host_prereq host_input_exists host_mkdir_new refl run rc refl pr]
    by (simp add: build_cmd_def SPZConverter_init_def start_def)
qed

text \<open>
  C3, as stated, fails in three ways on the concrete host, each with the prerequisites
  passing and the input present. A child that ends with exit status 0 but whose output
  \<^verbatim>\<open>text=True\<close> cannot decode makes \<^verbatim>\<open>subprocess.run\<close> raise, and the catch-all handler
  returns \<^verbatim>\<open>False\<close>. On a standard output limited to ASCII the success line cannot be
  printed, nor the line of the handler, and the exception leaves \<^verbatim>\<open>convert\<close>. And an
  absolute content file name is reported as it is, not under the output directory.
\<close>

theorem convert_exit_zero_counterexample:
  "exit_status (Raised (OtherException ''UnicodeDecodeError: invalid start byte'') (Some 0)) = Some 0
   \<and> fst (check_prerequisites
            (good_host (Raised (OtherException ''UnicodeDecodeError: invalid start byte'') (Some 0)))
            (start [])) = Inr (True, [])
   \<and> path_exists (good_host (Raised (OtherException ''UnicodeDecodeError: invalid start byte'') (Some 0)))
        [] ''scan.spz'' = Inr True
   \<and> convert (good_host (Raised (OtherException ''UnicodeDecodeError: invalid start byte'') (Some 0)))
        (SPZConverter_init (good_host maven_ok) None)
        ''scan.spz'' ''out'' ''content.glb'' (start []) =
       (Inr False,
        \<lparr>world = [''out''],
         printed =
           [''Converting scan.spz to out...'',
            ''Running: mvn exec:java -Dexec.mainClass=de.javagl.jspz.examples.SpzToTileset -Dexec.args=/work/scan.spz /work/out content.glb -pl jspz-main -q'',
            cross_mark @ '' Unexpected error: UnicodeDecodeError: invalid start byte''],
         calls =
           [Which ''mvn'', Environ_get ''JAVA_HOME'', Path_exists ''/opt/jdk/bin/java'',
            Subprocess_run [''mvn'', ''--version''] None 30,
            Path_exists ''scan.spz'', Path_mkdir ''out'' True True,
            Path_resolve ''scan.spz'', Path_resolve ''out'',
            Subprocess_run
              [''mvn'', ''exec:java'', ''-Dexec.mainClass=de.javagl.jspz.examples.SpzToTileset'',
               ''-Dexec.args=/work/scan.spz /work/out content.glb'', ''-pl'', ''jspz-main'', ''-q'']
              (Some ''/srv/jspz'') 300]\<rparr>)
   \<and> exit_status maven_ok = Some 0
   \<and> fst (convert (ascii_host maven_ok) (SPZConverter_init (ascii_host maven_ok) None)
            ''scan.spz'' ''out'' ''content.glb'' (start [])) =
       Inl (OtherException ''UnicodeEncodeError: ordinal not in range(128)'')
   \<and> printed (snd (convert (good_host maven_ok) (SPZConverter_init (good_host maven_ok) None)
            ''scan.spz'' ''out'' ''/abs/x.glb'' (start []))) =
       [''Converting scan.spz to out...'',
        ''Running: mvn exec:java -Dexec.mainClass=de.javagl.jspz.examples.SpzToTileset -Dexec.args=/work/scan.spz /work/out /abs/x.glb -pl jspz-main -q'',
        check_mark @ '' Conversion completed successfully!'',
        ''  Output files:'',
        ''    - out/tileset.json'',
        ''    - /abs/x.glb'']"
proof -
  let ?D = "Raised (OtherException ''UnicodeDecodeError: invalid start byte'') (Some 0)"
  let ?G = "\<lambda>oc. host False (Some ''/usr/bin/mvn'') (Some ''/opt/jdk'') maven_ok oc"
  let ?A = "host True (Some ''/usr/bin/mvn'') (Some ''/opt/jdk'') maven_ok maven_ok"
  have p1: "print_error (host a mvn jh v oc) (''Converting '' @ ''scan.spz'' @ '' to '' @ ''out'' @ ''...'') = None"
    for a mvn jh v oc
    by simp
  have p2: "print_error (host a mvn jh v oc)
              (''Running: '' @ str_join '' ''
                 (build_cmd (host a mvn jh v oc) (SPZConverter_init (host a' mvn' jh' v' oc') None)
                    (path_resolve (host a mvn jh v oc) [''out''] ''scan.spz'')
                    (path_resolve (host a mvn jh v oc) [''out''] ''out'') ''content.glb'')) = None"
    for a mvn jh v oc a' mvn' jh' v' oc'
    by (simp add: build_cmd_def SPZConverter_init_def)
  have decode: "convert (?G ?D) (SPZConverter_init (?G maven_ok) None)
        ''scan.spz'' ''out'' ''content.glb'' (start []) =
       (Inr False,
        \<lparr>world = [''out''],
         printed =
           [''Converting scan.spz to out...'',
            ''Running: mvn exec:java -Dexec.mainClass=de.javagl.jspz.examples.SpzToTileset -Dexec.args=/work/scan.spz /work/out content.glb -pl jspz-main -q'',
            cross_mark @ '' Unexpected error: UnicodeDecodeError: invalid start byte''],
         calls =
           [Which ''mvn'', Environ_get ''JAVA_HOME'', Path_exists ''/opt/jdk/bin/java'',
            Subprocess_run [''mvn'', ''--version''] None 30,
            Path_exists ''scan.spz'', Path_mkdir ''out'' True True,
            Path_resolve ''scan.spz'', Path_resolve ''out'',
            Subprocess_run
              [''mvn'', ''exec:java'', ''-Dexec.mainClass=de.javagl.jspz.examples.SpzToTileset'',
               ''-Dexec.args=/work/scan.spz /work/out content.glb'', ''-pl'', ''jspz-main'', ''-q'']
              (Some ''/srv/jspz'') 300]\<rparr>)"
    using convert_raised [OF host_prereq host_input_exists host_mkdir_new refl p1 p2 host_run_cmd]
    by (simp add: build_cmd_def SPZConverter_init_def print_then_return_ok)
  have encode: "fst (convert ?A (SPZConverter_init ?A None)
            ''scan.spz'' ''out'' ''content.glb'' (start [])) =
       Inl (OtherException ''UnicodeEncodeError: ordinal not in range(128)'')"
    using convert_launched [OF host_prereq host_input_exists host_mkdir_new refl p1 p2 host_run_cmd refl,
            of True maven_ok]
    by (simp add: maven_ok_def check_mark_def cross_mark_def print_then_return_raises)
  have pr: "\<forall>s \<in> set ls. print_error (?G maven_ok) s = None" for ls
    by simp
  have run: "subprocess_run (?G maven_ok) [''out'']
      (build_cmd (?G maven_ok) (SPZConverter_init (?G maven_ok) None)
         (path_resolve (?G maven_ok) [''out''] ''scan.spz'')
         (path_resolve (?G maven_ok) [''out''] ''out'') ''/abs/x.glb'')
      (Some (project_root (SPZConverter_init (?G maven_ok) None))) 300 =
      (Completed \<lparr>returncode = 0, stdout = ''Apache Maven 3.9.6'', stderr = []\<rparr>, [''out''])"
    by (simp add: maven_ok_def)
  have absolute: "printed (snd (convert (?G maven_ok) (SPZConverter_init (?G maven_ok) None)
            ''scan.spz'' ''out'' ''/abs/x.glb'' (start []))) =
       [''Converting scan.spz to out...'',
        ''Running: mvn exec:java -Dexec.mainClass=de.javagl.jspz.examples.SpzToTileset -Dexec.args=/work/scan.spz /work/out /abs/x.glb -pl jspz-main -q'',
        check_mark @ '' Conversion completed successfully!'',
        ''  Output files:'',
        ''    - out/tileset.json'',
        ''    - /abs/x.glb'']"
    using convert_completed [OF host_prereq host_input_exists host_mkdir_new refl run refl refl pr]
    by (simp add: build_cmd_def SPZConverter_init_def)
  have pre: "fst (check_prerequisites (?G ?D) (start [])) = Inr (True, [])"
    by (simp add: host_prereq)
  show ?thesis
    unfolding good_host_def ascii_host_def
    using decode encode absolute pre
    by (simp add: maven_ok_def)
qed






section \<open>Where an exception leaves convert\<close>

text \<open>What holds of the three early and late reports as long as their line can be printed.\<close>

lemma convert_prereq_failed_reported:
  assumes "check_prerequisites P m = (Inr (False, msg), m1)"
      and "print_error P (cross_mark @ '' Prerequisites check failed: '' @ msg) = None"
  shows "convert P self inp out name m =
           (Inr False, m1\<lparr>printed := printed m1 @ [cross_mark @ '' Prerequisites check failed: '' @ msg]\<rparr>)"
  using assms by (simp add: convert_prereq_failed print_then_return_ok)

lemma convert_input_missing_reported:
  assumes "check_prerequisites P m = (Inr (True, msg), m1)"
      and "path_exists P (world m1) inp = Inr False"
      and "print_error P (cross_mark @ '' Input file '' @ [quote_char] @ inp @ [quote_char]
                            @ '' does not exist'') = None"
  shows "convert P self inp out name m =
           (Inr False,
            \<lparr>world = world m1,
             printed = printed m1 @
               [cross_mark @ '' Input file '' @ [quote_char] @ inp @ [quote_char] @ '' does not exist''],
             calls = calls m1 @ [Path_exists inp]\<rparr>)"
  using assms by (cases m1) (simp add: convert_input_missing print_then_return_ok note_call_def)

lemma convert_timeout_reported_when_printable:
  assumes "check_prerequisites P m = (Inr (True, msg), m1)"
      and "path_exists P (world m1) inp = Inr True"
      and "path_mkdir P (world m1) out True True = (None, st2)"
      and "cmd = build_cmd P self (path_resolve P st2 inp) (path_resolve P st2 out) name"
      and "print_error P (''Converting '' @ inp @ '' to '' @ out @ ''...'') = None"
      and "print_error P (''Running: '' @ str_join '' '' cmd) = None"
      and "print_error P (cross_mark @ '' Conversion timed out after 5 minutes'') = None"
      and "subprocess_run P st2 cmd (Some (project_root self)) 300 = (Raised (TimeoutExpired s) status, st3)"
  shows "fst (convert P self inp out name m) = Inr False
       \<and> printed (snd (convert P self inp out name m)) =
           printed m @
           [''Converting '' @ inp @ '' to '' @ out @ ''...'',
            ''Running: '' @ str_join '' '' cmd,
            cross_mark @ '' Conversion timed out after 5 minutes'']"
proof -
  have same: "printed m1 = printed m"
    using cp_pass_shape [OF assms(1)] by simp
  from convert_raised [OF assms(1-6,8)] assms(7) same show ?thesis
    by (simp add: print_then_return_ok)
qed

text \<open>
  C4. Two hosts on which a prerequisite is missing and \<^verbatim>\<open>convert\<close> returns nothing. On the
  first, \<^verbatim>\<open>JAVA_HOME\<close> names a directory that does not exist and whose name has 256
  characters: the existence test of the Java executable raises \<^verbatim>\<open>OSError\<close>, which leaves
  \<^verbatim>\<open>check_prerequisites\<close> and \<^verbatim>\<open>convert\<close>. On the second, Maven is not on the search path
  and standard output is limited to ASCII: the check returns its failure, and the line
  \<^verbatim>\<open>convert\<close> prints about it cannot be encoded, so \<^verbatim>\<open>UnicodeEncodeError\<close> leaves \<^verbatim>\<open>convert\<close>.
\<close>

theorem missing_prerequisite_raises:
  "check_prerequisites
     (host False (Some ''/usr/bin/mvn'') (Some (replicate 256 CHR ''a'')) maven_ok maven_ok)
     (start []) =
     (Inl (OtherException ''[Errno 36] File name too long''),
      \<lparr>world = [], printed = [],
       calls = [Which ''mvn'', Environ_get ''JAVA_HOME'',
                Path_exists (replicate 256 CHR ''a'' @ ''/bin/java'')]\<rparr>)
   \<and> fst (convert
            (host False (Some ''/usr/bin/mvn'') (Some (replicate 256 CHR ''a'')) maven_ok maven_ok)
            (SPZConverter_init (good_host maven_ok) None)
            ''scan.spz'' ''out'' ''content.glb'' (start [])) =
       Inl (OtherException ''[Errno 36] File name too long'')
   \<and> fst (check_prerequisites (host True None (Some ''/opt/jdk'') maven_ok maven_ok) (start [])) =
       Inr (False, ''Maven not found in PATH. Please install Maven and add it to PATH.'')
   \<and> convert (host True None (Some ''/opt/jdk'') maven_ok maven_ok)
        (SPZConverter_init (good_host maven_ok) None)
        ''scan.spz'' ''out'' ''content.glb'' (start []) =
       (Inl (OtherException ''UnicodeEncodeError: ordinal not in range(128)''),
        \<lparr>world = [], printed = [], calls = [Which ''mvn'']\<rparr>)"
proof -
  let ?L = "host False (Some ''/usr/bin/mvn'') (Some (replicate 256 CHR ''a'')) maven_ok maven_ok"
  let ?N = "host True None (Some ''/opt/jdk'') maven_ok maven_ok"
  have w: "truthy (shutil_which ?L (world (start [])) (mvn_cmd ?L))"
    by (simp add: truthy_def)
  have j: "environ_get ?L (world (start [])) ''JAVA_HOME'' = Some (replicate 256 CHR ''a'')"
    by simp
  have n: "replicate 256 CHR ''a'' \<noteq> []"
    by simp
  have x: "path_exists ?L (world (start [])) (java_exe ?L (replicate 256 CHR ''a''))
             = Inl (OtherException ''[Errno 36] File name too long'')"
    by simp
  have long: "check_prerequisites ?L (start []) =
     (Inl (OtherException ''[Errno 36] File name too long''),
      \<lparr>world = [], printed = [],
       calls = [Which ''mvn'', Environ_get ''JAVA_HOME'',
                Path_exists (replicate 256 CHR ''a'' @ ''/bin/java'')]\<rparr>)"
    using cp_java_exe_raises [OF w j n x] by (simp add: start_def note_call_def)
  have nw: "\<not> truthy (shutil_which ?N (world (start [])) (mvn_cmd ?N))"
    by (simp add: truthy_def)
  have absent: "check_prerequisites ?N (start []) =
     (Inr (False, ''Maven not found in PATH. Please install Maven and add it to PATH.''),
      \<lparr>world = [], printed = [], calls = [Which ''mvn'']\<rparr>)"
    using cp_maven_missing [OF nw] by (simp add: start_def note_call_def)
  have line: "print_error ?N
      (cross_mark @ '' Prerequisites check failed: ''
         @ ''Maven not found in PATH. Please install Maven and add it to PATH.'') =
      Some (OtherException ''UnicodeEncodeError: ordinal not in range(128)'')"
    by (simp add: cross_mark_def)
  from long absent
    convert_prereq_raises [OF long]
    convert_prereq_failed [OF absent]
    print_then_return_raises [OF line]
  show ?thesis by simp
qed

text \<open>
  C6. Two absent input files for which \<^verbatim>\<open>convert\<close> returns nothing, with the prerequisites
  passing. A path of 256 characters cannot be examined: the existence test, which stands
  outside the \<^verbatim>\<open>try\<close>, raises \<^verbatim>\<open>OSError\<close>. And where standard output is limited to ASCII,
  the line that reports the missing file cannot be encoded. In both cases no directory is
  created and no command launched, but an exception leaves \<^verbatim>\<open>convert\<close> instead of \<^verbatim>\<open>False\<close>.
\<close>

theorem missing_input_raises:
  "convert (good_host maven_ok) (SPZConverter_init (good_host maven_ok) None)
     (replicate 256 CHR ''a'') ''out'' ''content.glb'' (start []) =
     (Inl (OtherException ''[Errno 36] File name too long''),
      \<lparr>world = [], printed = [],
       calls = [Which ''mvn'', Environ_get ''JAVA_HOME'', Path_exists ''/opt/jdk/bin/java'',
                Subprocess_run [''mvn'', ''--version''] None 30,
                Path_exists (replicate 256 CHR ''a'')]\<rparr>)
   \<and> path_exists (ascii_host maven_ok) [] ''absent.spz'' = Inr False
   \<and> convert (ascii_host maven_ok) (SPZConverter_init (ascii_host maven_ok) None)
        ''absent.spz'' ''out'' ''content.glb'' (start []) =
       (Inl (OtherException ''UnicodeEncodeError: ordinal not in range(128)''),
        \<lparr>world = [], printed = [],
         calls = [Which ''mvn'', Environ_get ''JAVA_HOME'', Path_exists ''/opt/jdk/bin/java'',
                  Subprocess_run [''mvn'', ''--version''] None 30,
                  Path_exists ''absent.spz'']\<rparr>)"
proof -
  let ?G = "host False (Some ''/usr/bin/mvn'') (Some ''/opt/jdk'') maven_ok maven_ok"
  let ?A = "host True (Some ''/usr/bin/mvn'') (Some ''/opt/jdk'') maven_ok maven_ok"
  have x: "path_exists ?G
      (world \<lparr>world = [], printed = [],
         calls = [Which ''mvn'', Environ_get ''JAVA_HOME'', Path_exists ''/opt/jdk/bin/java'',
                  Subprocess_run [''mvn'', ''--version''] None 30]\<rparr>)
      (replicate 256 CHR ''a'') = Inl (OtherException ''[Errno 36] File name too long'')"
    by simp
  have missing: "path_exists ?A
      (world \<lparr>world = [], printed = [],
         calls = [Which ''mvn'', Environ_get ''JAVA_HOME'', Path_exists ''/opt/jdk/bin/java'',
                  Subprocess_run [''mvn'', ''--version''] None 30]\<rparr>)
      ''absent.spz'' = Inr False"
    by simp
  have line: "print_error ?A
      (cross_mark @ '' Input file '' @ [quote_char] @ ''absent.spz'' @ [quote_char]
         @ '' does not exist'') =
      Some (OtherException ''UnicodeEncodeError: ordinal not in range(128)'')"
    by (simp add: cross_mark_def)
  from convert_input_raises [OF host_prereq x]
    convert_input_missing [OF host_prereq missing]
    print_then_return_raises [OF line]
  show ?thesis
    unfolding good_host_def ascii_host_def
    by (simp add: note_call_def)
qed

text \<open>
  C9. A timeout whose report is lost. On the host whose standard output is limited to
  ASCII, with the prerequisites passing, the input present and the command running into
  the timeout of 300, the handler of \<^verbatim>\<open>TimeoutExpired\<close> cannot print its line; the
  \<^verbatim>\<open>UnicodeEncodeError\<close> is raised inside the handler and leaves \<^verbatim>\<open>convert\<close>. Nothing about
  the timeout is printed and no \<^verbatim>\<open>False\<close> is returned.
\<close>

theorem timeout_report_raises:
  "convert (ascii_host (Raised (TimeoutExpired ''timed out after 300 seconds'') None))
     (SPZConverter_init (ascii_host maven_ok) None)
     ''scan.spz'' ''out'' ''content.glb'' (start []) =
     (Inl (OtherException ''UnicodeEncodeError: ordinal not in range(128)''),
      \<lparr>world = [''out''],
       printed =
         [''Converting scan.spz to out...'',
          ''Running: mvn exec:java -Dexec.mainClass=de.javagl.jspz.examples.SpzToTileset -Dexec.args=/work/scan.spz /work/out content.glb -pl jspz-main -q''],
       calls =
         [Which ''mvn'', Environ_get ''JAVA_HOME'', Path_exists ''/opt/jdk/bin/java'',
          Subprocess_run [''mvn'', ''--version''] None 30,
          Path_exists ''scan.spz'', Path_mkdir ''out'' True True,
          Path_resolve ''scan.spz'', Path_resolve ''out'',
          Subprocess_run
            [''mvn'', ''exec:java'', ''-Dexec.mainClass=de.javagl.jspz.examples.SpzToTileset'',
             ''-Dexec.args=/work/scan.spz /work/out content.glb'', ''-pl'', ''jspz-main'', ''-q'']
            (Some ''/srv/jspz'') 300]\<rparr>)"
proof -
  let ?T = "Raised (TimeoutExpired ''timed out after 300 seconds'') None"
  let ?A = "host True (Some ''/usr/bin/mvn'') (Some ''/opt/jdk'') maven_ok ?T"
  have p1: "print_error ?A (''Converting '' @ ''scan.spz'' @ '' to '' @ ''out'' @ ''...'') = None"
    by simp
  have p2: "print_error ?A
              (''Running: '' @ str_join '' ''
                 (build_cmd ?A (SPZConverter_init (host a' mvn' jh' v' oc') None)
                    (path_resolve ?A [''out''] ''scan.spz'')
                    (path_resolve ?A [''out''] ''out'') ''content.glb'')) = None"
    for a' mvn' jh' v' oc'
    by (simp add: build_cmd_def SPZConverter_init_def)
  have line: "print_error ?A (cross_mark @ '' Conversion timed out after 5 minutes'') =
      Some (OtherException ''UnicodeEncodeError: ordinal not in range(128)'')"
    by (simp add: cross_mark_def)
  from convert_raised [OF host_prereq host_input_exists host_mkdir_new refl p1 p2 host_run_cmd]
    print_then_return_raises [OF line]
  show ?thesis
    unfolding ascii_host_def
    by (simp add: build_cmd_def SPZConverter_init_def)
qed

end
